theory Spec2Isabelle
  imports Main
begin

section \<open>Exceptions\<close>

text \<open>
  The Python exceptions the service can meet. \<open>ValueError\<close> is what the credit gate
  raises, \<open>OperationalError\<close> is what \<^verbatim>\<open>sqlite3\<close> raises for a statement it cannot
  run, \<open>AttributeError\<close> and \<open>IndexError\<close> come from attribute and index lookups,
  \<open>LengthFinishReasonError\<close> is the collaborator's oversized-input fault, and
  \<open>OtherError\<close> stands for every other exception class of the collaborator's library.
  \<open>BadRequest\<close> and \<open>UnsupportedMediaType\<close> are the HTTP exceptions that
  \<^verbatim>\<open>request.json\<close> raises for a body that does not parse or is not sent as JSON.
  An exception carries its message, which is what \<^verbatim>\<open>str(e)\<close> returns.
\<close>

datatype exn_kind =
  ValueError | OperationalError | AttributeError | IndexError
  | LengthFinishReasonError | OtherError
  | BadRequest | UnsupportedMediaType

datatype exn = Exn exn_kind string

fun kind :: "exn \<Rightarrow> exn_kind" where
  "kind (Exn k m) = k"

fun str :: "exn \<Rightarrow> string" where
  "str (Exn k m) = m"

text \<open>The status code of an HTTP exception; the other exceptions have none.\<close>

fun http_code :: "exn_kind \<Rightarrow> nat option" where
  "http_code BadRequest = Some 400"
| "http_code UnsupportedMediaType = Some 415"
| "http_code k = None"

section \<open>Ledger store\<close>

text \<open>
  The table \<^verbatim>\<open>user_credits\<close> has a unique, non-null \<^verbatim>\<open>user_id\<close> and an integer
  \<^verbatim>\<open>credits\<close> column with default 10, so its contents are a finite map from user id to
  credits. The surrogate \<^verbatim>\<open>id\<close> column is never selected by the program and is left
  out. The database file either holds the table (\<open>Some t\<close>) or does not (\<open>None\<close>, the
  state before \<^verbatim>\<open>init_db\<close> has run): in the second state every statement on the table
  raises \<^verbatim>\<open>sqlite3.OperationalError\<close>. Faults of the environment (disk, file locks) are
  not modelled.
\<close>

type_synonym table = "string \<rightharpoonup> int"

type_synonym db = "table option"

definition no_such_table :: exn where
  "no_such_table = Exn OperationalError ''no such table: user_credits''"

definition init_db :: "db \<Rightarrow> db" where
  "init_db d = (case d of None \<Rightarrow> Some Map.empty | Some t \<Rightarrow> Some t)"

definition get_user_credits :: "string \<Rightarrow> db \<Rightarrow> exn + int option" where
  "get_user_credits user_id d =
     (case d of None \<Rightarrow> Inl no_such_table | Some t \<Rightarrow> Inr (t user_id))"

definition set_user_credits :: "string \<Rightarrow> int \<Rightarrow> db \<Rightarrow> exn + db" where
  "set_user_credits user_id credit_amount d =
     (case d of None \<Rightarrow> Inl no_such_table
      | Some t \<Rightarrow> Inr (Some (t(user_id \<mapsto> credit_amount))))"

text \<open>
  The first block of \<^verbatim>\<open>require_credits\<close>:
  \<^verbatim>\<open>INSERT OR IGNORE INTO user_credits (user_id) VALUES (?)\<close>. A new row gets the
  column default of 10 credits; an existing row is left alone.
\<close>

definition insert_or_ignore :: "string \<Rightarrow> db \<Rightarrow> exn + db" where
  "insert_or_ignore user_id d =
     (case d of None \<Rightarrow> Inl no_such_table
      | Some t \<Rightarrow> Inr (Some (case t user_id of None \<Rightarrow> t(user_id \<mapsto> 10) | Some c \<Rightarrow> t)))"

section \<open>Credit gate\<close>

definition no_more_credits :: exn where
  "no_more_credits = Exn ValueError ''No more credits left''"

text \<open>
  \<^verbatim>\<open>require_credits\<close> returns normally (\<open>Inr ()\<close>) or raises (\<open>Inl e\<close>); in both cases
  the database it leaves behind is returned too. Its three statements run in three
  connections of their own.
\<close>

definition require_credits :: "string \<Rightarrow> db \<Rightarrow> (exn + unit) \<times> db" where
  "require_credits user_id d =
     (case insert_or_ignore user_id d of
        Inl e \<Rightarrow> (Inl e, d)
      | Inr d1 \<Rightarrow>
          (case get_user_credits user_id d1 of
             Inl e \<Rightarrow> (Inl e, d1)
           | Inr current_credits \<Rightarrow>
               (case current_credits of
                  None \<Rightarrow> (Inl no_more_credits, d1)
                | Some c \<Rightarrow>
                    if c < 1 then (Inl no_more_credits, d1)
                    else (case set_user_credits user_id (c - 1) d1 of
                            Inl e \<Rightarrow> (Inl e, d1)
                          | Inr d2 \<Rightarrow> (Inr (), d2)))))"

section \<open>JSON values\<close>

text \<open>
  A parsed JSON document, as \<^verbatim>\<open>request.json\<close> returns it and as \<^verbatim>\<open>jsonify\<close> takes it.
  An object is an association list; a key given twice keeps its last value, as Python's
  parser does. JSON numbers with a fraction are not modelled.
\<close>

datatype jvalue =
  JNull | JBool bool | JInt int | JStr string
  | JList "jvalue list" | JObj "(string \<times> jvalue) list"

text \<open>Python's truth value of a parsed document, the test behind \<^verbatim>\<open>not data\<close>.\<close>

fun truthy :: "jvalue \<Rightarrow> bool" where
  "truthy JNull = False"
| "truthy (JBool b) = b"
| "truthy (JInt i) = (i \<noteq> 0)"
| "truthy (JStr s) = (s \<noteq> [])"
| "truthy (JList xs) = (xs \<noteq> [])"
| "truthy (JObj kvs) = (kvs \<noteq> [])"

text \<open>The truth value of an optional string: a header that may be absent, a refusal text.\<close>

fun truthy_str :: "string option \<Rightarrow> bool" where
  "truthy_str None = False"
| "truthy_str (Some s) = (s \<noteq> [])"

definition quote :: "string \<Rightarrow> string" where
  "quote s = CHR 0x27 # s @ [CHR 0x27]"

definition no_attribute :: "string \<Rightarrow> string \<Rightarrow> exn" where
  "no_attribute ty a =
     Exn AttributeError (quote ty @ '' object has no attribute '' @ quote a)"

fun type_name :: "jvalue \<Rightarrow> string" where
  "type_name JNull = ''NoneType''"
| "type_name (JBool b) = ''bool''"
| "type_name (JInt i) = ''int''"
| "type_name (JStr s) = ''str''"
| "type_name (JList xs) = ''list''"
| "type_name (JObj kvs) = ''dict''"

text \<open>
  \<^verbatim>\<open>data.get(key)\<close>: on a dict the value or \<^verbatim>\<open>None\<close>; any other document has no
  \<^verbatim>\<open>get\<close> and the lookup raises \<^verbatim>\<open>AttributeError\<close>.
\<close>

definition dict_get :: "jvalue \<Rightarrow> string \<Rightarrow> exn + jvalue" where
  "dict_get data key =
     (case data of
        JObj kvs \<Rightarrow> Inr (case map_of (rev kvs) key of None \<Rightarrow> JNull | Some v \<Rightarrow> v)
      | _ \<Rightarrow> Inl (no_attribute (type_name data) ''get''))"

text \<open>
  A response is a body and a status code. The handlers build JSON bodies with
  \<^verbatim>\<open>jsonify\<close>; an HTTP exception that no registered handler takes is answered by the
  framework with the HTML page it renders from the exception.
\<close>

datatype body = Json jvalue | HtmlErrorPage exn

type_synonym response = "body \<times> nat"

definition jsonify :: "(string \<times> jvalue) list \<Rightarrow> body" where
  "jsonify kvs = Json (JObj kvs)"

definition error_body :: "string \<Rightarrow> body" where
  "error_body msg = jsonify [(''error'', JStr msg)]"

section \<open>Collaborator\<close>

record PictureDescription =
  name :: string
  description :: string
  fun_facts :: "string list"

text \<open>
  Attribute access on a \<^verbatim>\<open>PictureDescription\<close>: the class declares three fields, and
  any other attribute raises \<^verbatim>\<open>AttributeError\<close>.
\<close>

definition getattr_PictureDescription :: "PictureDescription \<Rightarrow> string \<Rightarrow> exn + jvalue" where
  "getattr_PictureDescription p a =
     (if a = ''name'' then Inr (JStr (name p))
      else if a = ''description'' then Inr (JStr (description p))
      else if a = ''fun_facts'' then Inr (JList (map JStr (fun_facts p)))
      else Inl (no_attribute ''PictureDescription'' a))"

record message =
  parsed :: "PictureDescription option"
  refusal :: "string option"

text \<open>
  The completion call is opaque: given the language tag and the image payload it raises
  or returns the list of choices, each holding a message.
\<close>

type_synonym openai_client = "jvalue \<Rightarrow> jvalue \<Rightarrow> exn + message list"

definition process_image_recognition :: "openai_client \<Rightarrow> jvalue \<Rightarrow> jvalue \<Rightarrow> exn + message" where
  "process_image_recognition client lang img =
     (case client lang img of
        Inl e \<Rightarrow> Inl e
      | Inr choices \<Rightarrow>
          (case choices of
             [] \<Rightarrow> Inl (Exn IndexError ''list index out of range'')
           | m # ms \<Rightarrow> Inr m))"

section \<open>Request admission layer\<close>

text \<open>
  A request, as the handlers read it: the lookup \<^verbatim>\<open>request.headers.get\<close> and what the
  property \<^verbatim>\<open>request.json\<close> does on it, which is to return the parsed document or to raise
  \<open>UnsupportedMediaType\<close> (the body is not sent as JSON) or \<open>BadRequest\<close> (the body does
  not parse).
\<close>

record request =
  headers :: "string \<rightharpoonup> string"
  json :: "exn + jvalue"

record app =
  api_key :: "string option"
  client :: openai_client

text \<open>
  A view function returns a response or lets an exception escape (\<open>Inl e\<close>). The app
  registers handlers for the codes 404 and 500 only. Flask answers an escaped HTTP
  exception with the handler registered for its code, or with the exception's own page
  when there is none; any other escaped exception goes to the 500 handler.
\<close>

definition not_found :: "exn \<Rightarrow> response" where
  "not_found e = (error_body ''Not found'', 404)"

definition server_error :: "exn \<Rightarrow> response" where
  "server_error e = (error_body ''Internal server error'', 500)"

definition handle_user_exception :: "exn \<Rightarrow> response" where
  "handle_user_exception e =
     (case http_code (kind e) of
        None \<Rightarrow> server_error e
      | Some c \<Rightarrow>
          if c = 404 then not_found e
          else if c = 500 then server_error e
          else (HtmlErrorPage e, c))"

definition full_dispatch :: "(exn + response) \<times> db \<Rightarrow> response \<times> db" where
  "full_dispatch r =
     (case r of (Inl e, d) \<Rightarrow> (handle_user_exception e, d) | (Inr rv, d) \<Rightarrow> (rv, d))"

definition require_api_key_and_user_id ::
  "app \<Rightarrow> (string \<Rightarrow> request \<Rightarrow> db \<Rightarrow> (exn + response) \<times> db)
     \<Rightarrow> request \<Rightarrow> db \<Rightarrow> (exn + response) \<times> db" where
  "require_api_key_and_user_id a f req d =
     (let api_key_param = headers req ''X-Api-Key'' in
      if \<not> truthy_str api_key_param \<or> api_key_param \<noteq> api_key a
      then (Inr (error_body ''Invalid API key'', 422), d)
      else (let user_id = headers req ''X-User-Id'' in
            case user_id of
              None \<Rightarrow> (Inr (error_body ''Missing required user ID'', 422), d)
            | Some u \<Rightarrow>
                if u = [] then (Inr (error_body ''Missing required user ID'', 422), d)
                else f u req d))"

definition credits_or_0 :: "int option \<Rightarrow> int" where
  "credits_or_0 user_credits =
     (case user_credits of None \<Rightarrow> 0 | Some c \<Rightarrow> if c \<noteq> 0 then c else 0)"

definition credits_left :: "string \<Rightarrow> request \<Rightarrow> db \<Rightarrow> (exn + response) \<times> db" where
  "credits_left user_id req d =
     (case get_user_credits user_id d of
        Inl e \<Rightarrow> (Inl e, d)
      | Inr user_credits \<Rightarrow>
          (Inr (jsonify [(''credits'', JInt (credits_or_0 user_credits))], 200), d))"

text \<open>The \<^verbatim>\<open>except Exception\<close> clause around the collaborator call.\<close>

definition on_collaborator_exception :: "exn \<Rightarrow> response" where
  "on_collaborator_exception e =
     (if kind e = LengthFinishReasonError then (error_body ''Image too big'', 422)
      else (error_body (str e), 500))"

text \<open>
  The second \<^verbatim>\<open>try\<close> block of \<^verbatim>\<open>analyze_image\<close> in \<^verbatim>\<open>src/app/server.py\<close>: it reads
  \<^verbatim>\<open>parsed.name\<close>, \<^verbatim>\<open>parsed.description\<close> and \<^verbatim>\<open>parsed.synonyms\<close>.
\<close>

definition describe_image :: "openai_client \<Rightarrow> jvalue \<Rightarrow> jvalue \<Rightarrow> response" where
  "describe_image c lang img =
     (case process_image_recognition c lang img of
        Inl e \<Rightarrow> on_collaborator_exception e
      | Inr response_content \<Rightarrow>
          (case parsed response_content of
             Some p \<Rightarrow>
               (case getattr_PictureDescription p ''name'' of
                  Inl e \<Rightarrow> on_collaborator_exception e
                | Inr n \<Rightarrow>
                    (case getattr_PictureDescription p ''description'' of
                       Inl e \<Rightarrow> on_collaborator_exception e
                     | Inr ds \<Rightarrow>
                         (case getattr_PictureDescription p ''synonyms'' of
                            Inl e \<Rightarrow> on_collaborator_exception e
                          | Inr sy \<Rightarrow>
                              (jsonify [(''name'', n), (''description'', ds),
                                        (''synonyms'', sy)], 200))))
           | None \<Rightarrow>
               if truthy_str (refusal response_content)
               then (error_body ''Image is not processable'', 422)
               else (error_body ''Image cannot be identified'', 422)))"

text \<open>The \<^verbatim>\<open>try\<close> block around \<^verbatim>\<open>require_credits\<close>, followed by the collaborator call.\<close>

definition check_and_describe ::
  "(openai_client \<Rightarrow> jvalue \<Rightarrow> jvalue \<Rightarrow> response) \<Rightarrow> openai_client \<Rightarrow> string
     \<Rightarrow> jvalue \<Rightarrow> jvalue \<Rightarrow> db \<Rightarrow> (exn + response) \<times> db" where
  "check_and_describe describe c user_id lang img d =
     (case require_credits user_id d of
        (Inl e, d') \<Rightarrow>
          if kind e = ValueError then (Inr (error_body (str e), 402), d')
          else (Inr (error_body (str e), 500), d')
      | (Inr u, d') \<Rightarrow> (Inr (describe c lang img), d'))"

definition analyze_image :: "app \<Rightarrow> string \<Rightarrow> request \<Rightarrow> db \<Rightarrow> (exn + response) \<times> db" where
  "analyze_image a user_id req d =
     (case json req of
        Inl e \<Rightarrow> (Inl e, d)
      | Inr data \<Rightarrow>
          if \<not> truthy data then (Inr (error_body ''No data provided'', 422), d)
          else (case dict_get data ''lang'' of
                  Inl e \<Rightarrow> (Inl e, d)
                | Inr lang \<Rightarrow>
                    (case dict_get data ''image'' of
                       Inl e \<Rightarrow> (Inl e, d)
                     | Inr img \<Rightarrow>
                         if \<not> truthy lang \<or> \<not> truthy img
                         then (Inr (error_body ''Missing required fields'', 422), d)
                         else check_and_describe describe_image (client a) user_id
                                lang img d)))"

text \<open>The two routes of \<^verbatim>\<open>src/app/server.py\<close>, as a client of the service sees them.\<close>

definition GET_credits :: "app \<Rightarrow> request \<Rightarrow> db \<Rightarrow> response \<times> db" where
  "GET_credits a req d = full_dispatch (require_api_key_and_user_id a credits_left req d)"

definition POST_analyze_image :: "app \<Rightarrow> request \<Rightarrow> db \<Rightarrow> response \<times> db" where
  "POST_analyze_image a req d =
     full_dispatch (require_api_key_and_user_id a (analyze_image a) req d)"

subsection \<open>The entry point without API key, \<^verbatim>\<open>src/server.py\<close>\<close>

text \<open>
  Its database functions are the same text as above. Its handlers read the user id
  themselves, after the payload checks, and the success body reads \<^verbatim>\<open>parsed.fun_facts\<close>.
\<close>

definition credits_left_root :: "request \<Rightarrow> db \<Rightarrow> (exn + response) \<times> db" where
  "credits_left_root req d =
     (let user_id = headers req ''X-User-Id'' in
      case user_id of
        None \<Rightarrow> (Inr (error_body ''Missing required user ID'', 422), d)
      | Some u \<Rightarrow>
          if u = [] then (Inr (error_body ''Missing required user ID'', 422), d)
          else credits_left u req d)"

definition describe_image_root :: "openai_client \<Rightarrow> jvalue \<Rightarrow> jvalue \<Rightarrow> response" where
  "describe_image_root c lang img =
     (case process_image_recognition c lang img of
        Inl e \<Rightarrow> on_collaborator_exception e
      | Inr response_content \<Rightarrow>
          (case parsed response_content of
             Some p \<Rightarrow>
               (case getattr_PictureDescription p ''name'' of
                  Inl e \<Rightarrow> on_collaborator_exception e
                | Inr n \<Rightarrow>
                    (case getattr_PictureDescription p ''description'' of
                       Inl e \<Rightarrow> on_collaborator_exception e
                     | Inr ds \<Rightarrow>
                         (case getattr_PictureDescription p ''fun_facts'' of
                            Inl e \<Rightarrow> on_collaborator_exception e
                          | Inr ff \<Rightarrow>
                              (jsonify [(''name'', n), (''description'', ds),
                                        (''funFacts'', ff)], 200))))
           | None \<Rightarrow>
               if truthy_str (refusal response_content)
               then (error_body ''Image is not processable'', 422)
               else (error_body ''Image cannot be identified'', 422)))"

definition analyze_image_root :: "app \<Rightarrow> request \<Rightarrow> db \<Rightarrow> (exn + response) \<times> db" where
  "analyze_image_root a req d =
     (case json req of
        Inl e \<Rightarrow> (Inl e, d)
      | Inr data \<Rightarrow>
          if \<not> truthy data then (Inr (error_body ''No data provided'', 422), d)
          else (case dict_get data ''lang'' of
                  Inl e \<Rightarrow> (Inl e, d)
                | Inr lang \<Rightarrow>
                    (case dict_get data ''image'' of
                       Inl e \<Rightarrow> (Inl e, d)
                     | Inr img \<Rightarrow>
                         if \<not> truthy lang \<or> \<not> truthy img
                         then (Inr (error_body ''Missing required fields'', 422), d)
                         else (let user_id = headers req ''X-User-Id'' in
                               case user_id of
                                 None \<Rightarrow>
                                   (Inr (error_body ''Missing required user ID'', 422), d)
                               | Some u \<Rightarrow>
                                   if u = []
                                   then (Inr (error_body ''Missing required user ID'', 422), d)
                                   else check_and_describe describe_image_root (client a)
                                          u lang img d))))"

definition GET_credits_root :: "app \<Rightarrow> request \<Rightarrow> db \<Rightarrow> response \<times> db" where
  "GET_credits_root a req d = full_dispatch (credits_left_root req d)"

definition POST_analyze_image_root :: "app \<Rightarrow> request \<Rightarrow> db \<Rightarrow> response \<times> db" where
  "POST_analyze_image_root a req d = full_dispatch (analyze_image_root a req d)"

section \<open>Calls of the gate, one after the other and interleaved\<close>

text \<open>\<open>n\<close> calls of \<^verbatim>\<open>require_credits\<close> for one user, each finished before the next.\<close>

fun admit_times :: "nat \<Rightarrow> string \<Rightarrow> db \<Rightarrow> (exn + unit) list \<times> db" where
  "admit_times 0 user_id d = ([], d)"
| "admit_times (Suc n) user_id d =
     (case require_credits user_id d of
        (r, d1) \<Rightarrow> (case admit_times n user_id d1 of (rs, d2) \<Rightarrow> (r # rs, d2)))"

text \<open>
  The server runs requests in threads. \<^verbatim>\<open>require_credits\<close> opens three connections in
  turn, one per statement, and takes no lock of its own, so a call is at one of these
  points: before the insert-if-absent, before the read, holding the value it read, or
  finished. One step runs one statement (the last step decides and, if it may, writes).
\<close>

datatype pc = AtInsert | AtSelect | AtDecide "int option" | Finished "exn + unit"

fun admit_step :: "string \<Rightarrow> pc \<Rightarrow> db \<Rightarrow> pc \<times> db" where
  "admit_step user_id AtInsert d =
     (case insert_or_ignore user_id d of
        Inl e \<Rightarrow> (Finished (Inl e), d)
      | Inr d1 \<Rightarrow> (AtSelect, d1))"
| "admit_step user_id AtSelect d =
     (case get_user_credits user_id d of
        Inl e \<Rightarrow> (Finished (Inl e), d)
      | Inr current_credits \<Rightarrow> (AtDecide current_credits, d))"
| "admit_step user_id (AtDecide current_credits) d =
     (case current_credits of
        None \<Rightarrow> (Finished (Inl no_more_credits), d)
      | Some c \<Rightarrow>
          if c < 1 then (Finished (Inl no_more_credits), d)
          else (case set_user_credits user_id (c - 1) d of
                  Inl e \<Rightarrow> (Finished (Inl e), d)
                | Inr d2 \<Rightarrow> (Finished (Inr ()), d2)))"
| "admit_step user_id (Finished r) d = (Finished r, d)"

text \<open>
  A schedule names, step by step, the call that runs next. Each call is a pair of its
  user id and its point.
\<close>

fun step_call :: "nat \<Rightarrow> (string \<times> pc) list \<times> db \<Rightarrow> (string \<times> pc) list \<times> db" where
  "step_call i (calls, d) =
     (if i < length calls
      then (case calls ! i of
              (u, p) \<Rightarrow> (case admit_step u p d of (p', d') \<Rightarrow> (calls[i := (u, p')], d')))
      else (calls, d))"

fun run_schedule :: "nat list \<Rightarrow> (string \<times> pc) list \<times> db \<Rightarrow> (string \<times> pc) list \<times> db" where
  "run_schedule [] s = s"
| "run_schedule (i # sched) s = run_schedule sched (step_call i s)"

definition ok_count :: "(string \<times> pc) list \<Rightarrow> nat" where
  "ok_count calls = length (filter (\<lambda>(u, p). p = Finished (Inr ())) calls)"

text \<open>No stored balance is negative.\<close>

definition nonneg :: "db \<Rightarrow> bool" where
  "nonneg d = (case d of None \<Rightarrow> True | Some t \<Rightarrow> \<forall>b \<in> ran t. 0 \<le> b)"

text \<open>
  A request to \<^verbatim>\<open>POST /analyze/image\<close> that passes every check made before the gate,
  with the user id, language tag and image payload the handler extracts from it.
\<close>

definition passes_validation :: "app \<Rightarrow> request \<Rightarrow> string \<Rightarrow> jvalue \<Rightarrow> jvalue \<Rightarrow> bool" where
  "passes_validation a req user_id lang img =
     (truthy_str (headers req ''X-Api-Key'') \<and> headers req ''X-Api-Key'' = api_key a
      \<and> headers req ''X-User-Id'' = Some user_id \<and> user_id \<noteq> []
      \<and> (case json req of
            Inl e \<Rightarrow> False
          | Inr data \<Rightarrow>
              truthy data
              \<and> dict_get data ''lang'' = Inr lang \<and> dict_get data ''image'' = Inr img)
      \<and> truthy lang \<and> truthy img)"

text \<open>
  A request lacks a field when the handler's test \<^verbatim>\<open>not data.get(key)\<close> succeeds or
  cannot be made: the key is absent, its value is empty or null, the document is not an
  object, or \<^verbatim>\<open>request.json\<close> gives no document at all.
\<close>

definition missing :: "request \<Rightarrow> string \<Rightarrow> bool" where
  "missing req key =
     (case json req of
        Inl e \<Rightarrow> True
      | Inr data \<Rightarrow> (case dict_get data key of Inl e \<Rightarrow> True | Inr v \<Rightarrow> \<not> truthy v))"

text \<open>The request carries a valid API key and the user id \<open>u\<close>: it passes the decorator.\<close>

definition passes_decorator :: "app \<Rightarrow> request \<Rightarrow> string \<Rightarrow> bool" where
  "passes_decorator a req u =
     (truthy_str (headers req ''X-Api-Key'') \<and> headers req ''X-Api-Key'' = api_key a
      \<and> headers req ''X-User-Id'' = Some u \<and> u \<noteq> [])"

text \<open>The messages written as literals in the handlers of \<^verbatim>\<open>src/app/server.py\<close>.\<close>

definition fixed_messages :: "string list" where
  "fixed_messages =
     [''Invalid API key'', ''Missing required user ID'', ''No data provided'',
      ''Missing required fields'', ''No more credits left'', ''Image is not processable'',
      ''Image cannot be identified'', ''Image too big'', ''Not found'',
      ''Internal server error'']"

text \<open>
  An error response: a JSON object with the single field \<^verbatim>\<open>error\<close>, holding a string that
  is one of the literals above unless the status is 500.
\<close>

definition error_shaped :: "response \<Rightarrow> bool" where
  "error_shaped r =
     (\<exists>s. fst r = Json (JObj [(''error'', JStr s)])
          \<and> (s \<in> set fixed_messages \<or> snd r = 500))"

section \<open>The gate on an initialised ledger\<close>

lemma require_credits_absent:
  "t user_id = None \<Longrightarrow> require_credits user_id (Some t) = (Inr (), Some (t(user_id \<mapsto> 9)))"
  by (simp add: require_credits_def insert_or_ignore_def get_user_credits_def
      set_user_credits_def)

lemma require_credits_denied:
  "t user_id = Some b \<Longrightarrow> b < 1 \<Longrightarrow>
   require_credits user_id (Some t) = (Inl no_more_credits, Some t)"
  by (simp add: require_credits_def insert_or_ignore_def get_user_credits_def)

lemma require_credits_ok:
  "t user_id = Some b \<Longrightarrow> 1 \<le> b \<Longrightarrow>
   require_credits user_id (Some t) = (Inr (), Some (t(user_id \<mapsto> b - 1)))"
  by (simp add: require_credits_def insert_or_ignore_def get_user_credits_def
      set_user_credits_def)

lemma require_credits_no_table:
  "require_credits user_id None = (Inl no_such_table, None)"
  by (simp add: require_credits_def insert_or_ignore_def)

lemma require_credits_denied_frame:
  "fst (require_credits user_id d) = Inl no_more_credits \<Longrightarrow> snd (require_credits user_id d) = d"
  by (auto simp: require_credits_def insert_or_ignore_def get_user_credits_def
      set_user_credits_def no_more_credits_def no_such_table_def
      split: option.splits if_splits)

lemma nonneg_upd: "nonneg (Some t) \<Longrightarrow> 0 \<le> b \<Longrightarrow> nonneg (Some (t(u \<mapsto> b)))"
  by (auto simp: nonneg_def ran_def split: if_splits)

lemma require_credits_nonneg:
  "nonneg d \<Longrightarrow> nonneg (snd (require_credits user_id d))"
proof (cases d)
  case None
  then show ?thesis by (simp add: require_credits_no_table nonneg_def)
next
  case (Some t)
  assume nn: "nonneg d"
  show ?thesis
  proof (cases "t user_id")
    case None
    with Some nn show ?thesis
      by (simp add: require_credits_absent nonneg_upd)
  next
    case (Some b)
    note tb = this
    show ?thesis
    proof (cases "b < 1")
      case True
      with tb \<open>d = Some t\<close> nn show ?thesis by (simp add: require_credits_denied)
    next
      case False
      with tb \<open>d = Some t\<close> nn show ?thesis by (simp add: require_credits_ok nonneg_upd)
    qed
  qed
qed

lemma admit_times_present:
  "t u = Some b \<Longrightarrow> 0 \<le> b \<Longrightarrow>
   admit_times n u (Some t) =
     (replicate (min n (nat b)) (Inr ()) @ replicate (n - nat b) (Inl no_more_credits),
      Some (t(u \<mapsto> b - int (min n (nat b)))))"
proof (induction n arbitrary: t b)
  case 0
  then show ?case by (simp add: map_upd_triv)
next
  case (Suc n)
  show ?case
  proof (cases "b < 1")
    case True
    with Suc.prems have b0: "b = 0" by simp
    have rc: "require_credits u (Some t) = (Inl no_more_credits, Some t)"
      using Suc.prems True by (simp add: require_credits_denied)
    have "admit_times n u (Some t) =
        (replicate n (Inl no_more_credits), Some t)"
      using Suc.IH [of t b] Suc.prems b0 by (simp add: map_upd_triv)
    with rc b0 Suc.prems show ?thesis by (simp add: map_upd_triv)
  next
    case False
    then have b1: "1 \<le> b" by simp
    have rc: "require_credits u (Some t) = (Inr (), Some (t(u \<mapsto> b - 1)))"
      using Suc.prems b1 by (simp add: require_credits_ok)
    have ih: "admit_times n u (Some (t(u \<mapsto> b - 1))) =
        (replicate (min n (nat (b - 1))) (Inr ()) @ replicate (n - nat (b - 1)) (Inl no_more_credits),
         Some ((t(u \<mapsto> b - 1))(u \<mapsto> b - 1 - int (min n (nat (b - 1))))))"
      by (rule Suc.IH) (use b1 in simp_all)
    have m: "min (Suc n) (nat b) = Suc (min n (nat (b - 1)))"
      using b1 by (auto simp: min_def)
    have s: "Suc n - nat b = n - nat (b - 1)"
      using b1 by auto
    have e: "b - int (Suc (min n (nat (b - 1)))) = b - 1 - int (min n (nat (b - 1)))"
      by simp
    have "admit_times (Suc n) u (Some t) =
        (Inr () # replicate (min n (nat (b - 1))) (Inr ()) @ replicate (n - nat (b - 1)) (Inl no_more_credits),
         Some (t(u \<mapsto> b - 1 - int (min n (nat (b - 1))))))"
      by (simp add: rc ih)
    then show ?thesis
      unfolding m s e replicate.simps append.simps .
  qed
qed

lemma admit_times_fresh:
  "t u = None \<Longrightarrow>
   admit_times (Suc n) u (Some t) =
     (replicate (min (Suc n) 10) (Inr ()) @ replicate (Suc n - 10) (Inl no_more_credits),
      Some (t(u \<mapsto> 10 - int (min (Suc n) 10))))"
proof -
  assume a: "t u = None"
  have rc: "require_credits u (Some t) = (Inr (), Some (t(u \<mapsto> 9)))"
    using a by (rule require_credits_absent)
  have ih: "admit_times n u (Some (t(u \<mapsto> 9))) =
     (replicate (min n (nat 9)) (Inr ()) @ replicate (n - nat 9) (Inl no_more_credits),
      Some ((t(u \<mapsto> 9))(u \<mapsto> 9 - int (min n (nat 9)))))"
    by (rule admit_times_present) simp_all
  have m: "min (Suc n) 10 = Suc (min n 9)" by (simp add: min_def)
  have e: "10 - int (Suc (min n 9)) = 9 - int (min n 9)" by simp
  have s: "Suc n - 10 = n - 9" by simp
  have "admit_times (Suc n) u (Some t) =
     (Inr () # replicate (min n 9) (Inr ()) @ replicate (n - 9) (Inl no_more_credits),
      Some (t(u \<mapsto> 9 - int (min n 9))))"
    by (simp add: rc ih)
  then show ?thesis
    unfolding m s e replicate.simps append.simps .
qed

lemma admit_step_nonneg: "nonneg d \<Longrightarrow> nonneg (snd (admit_step u p d))"
proof (cases d)
  case None
  then show ?thesis
    by (cases p) (auto simp: nonneg_def insert_or_ignore_def get_user_credits_def
        set_user_credits_def split: option.splits)
next
  case (Some t)
  assume "nonneg d"
  with Some show ?thesis
    by (cases p) (auto simp: insert_or_ignore_def get_user_credits_def
        set_user_credits_def nonneg_upd split: option.splits)
qed

lemma step_call_nonneg: "nonneg (snd s) \<Longrightarrow> nonneg (snd (step_call i s))"
proof (cases s)
  case (Pair calls d)
  assume nn: "nonneg (snd s)"
  show ?thesis
  proof (cases "i < length calls")
    case True
    obtain u p where c: "calls ! i = (u, p)" by (cases "calls ! i")
    obtain p' d' where st: "admit_step u p d = (p', d')" by (cases "admit_step u p d")
    have "nonneg d'" using admit_step_nonneg [of d u p] nn Pair st by simp
    with Pair True c st show ?thesis by simp
  next
    case False
    with Pair nn show ?thesis by simp
  qed
qed

lemma run_schedule_nonneg: "nonneg (snd s) \<Longrightarrow> nonneg (snd (run_schedule sched s))"
  by (induction sched arbitrary: s) (simp_all add: step_call_nonneg)

lemma admit_steps_require_credits:
  "run_schedule [0, 0, 0] ([(u, AtInsert)], d) =
     ([(u, Finished (fst (require_credits u d)))], snd (require_credits u d))"
  by (cases d)
     (auto simp: require_credits_def insert_or_ignore_def get_user_credits_def
        set_user_credits_def split: option.splits)

section \<open>The admission layer: validation and frame lemmas\<close>

lemma analyze_image_valid:
  "passes_validation a req user_id lang img \<Longrightarrow>
   POST_analyze_image a req d =
     full_dispatch (check_and_describe describe_image (client a) user_id lang img d)"
  by (auto simp: passes_validation_def POST_analyze_image_def require_api_key_and_user_id_def
      analyze_image_def Let_def split: sum.splits)

lemma GET_credits_frame: "snd (GET_credits a req d) = d"
  by (auto simp: GET_credits_def require_api_key_and_user_id_def credits_left_def
      full_dispatch_def Let_def split: option.splits sum.splits)

lemma check_and_describe_frame:
  "snd (check_and_describe describe c u lang img d) = snd (require_credits u d)"
  by (cases "require_credits u d") (auto simp: check_and_describe_def split: sum.splits)

lemma full_dispatch_snd: "snd (full_dispatch r) = snd r"
  by (cases r) (auto simp: full_dispatch_def split: sum.splits)

lemma analyze_image_frame:
  "snd (analyze_image a u req d) = d \<or> snd (analyze_image a u req d) = snd (require_credits u d)"
  by (auto simp: analyze_image_def Let_def check_and_describe_frame split: sum.splits)

lemma POST_analyze_image_frame:
  "snd (POST_analyze_image a req d) = d
   \<or> (\<exists>u. headers req ''X-User-Id'' = Some u
          \<and> snd (POST_analyze_image a req d) = snd (require_credits u d))"
  using analyze_image_frame [of a _ req d]
  by (auto simp: POST_analyze_image_def full_dispatch_snd require_api_key_and_user_id_def
      Let_def split: option.splits)

lemma decorator_passes:
  "truthy_str (headers req ''X-Api-Key'') \<Longrightarrow> headers req ''X-Api-Key'' = api_key a \<Longrightarrow>
   headers req ''X-User-Id'' = Some user_id \<Longrightarrow> user_id \<noteq> [] \<Longrightarrow>
   require_api_key_and_user_id a f req d = f user_id req d"
  by (simp add: require_api_key_and_user_id_def)

lemma decorator_rejects_key:
  "\<not> truthy_str (headers req ''X-Api-Key'') \<or> headers req ''X-Api-Key'' \<noteq> api_key a \<Longrightarrow>
   require_api_key_and_user_id a f req d = (Inr (error_body ''Invalid API key'', 422), d)"
  by (auto simp: require_api_key_and_user_id_def)

lemma check_and_describe_ok:
  "require_credits u d = (Inr (), d') \<Longrightarrow>
   check_and_describe describe c u lang img d = (Inr (describe c lang img), d')"
  by (simp add: check_and_describe_def)

lemma describe_image_refusal:
  "process_image_recognition c lang img = Inr m \<Longrightarrow> parsed m = None \<Longrightarrow>
   truthy_str (refusal m) \<Longrightarrow>
   describe_image c lang img = (error_body ''Image is not processable'', 422)"
  by (simp add: describe_image_def)

lemma describe_image_root_refusal:
  "process_image_recognition c lang img = Inr m \<Longrightarrow> parsed m = None \<Longrightarrow>
   truthy_str (refusal m) \<Longrightarrow>
   describe_image_root c lang img = (error_body ''Image is not processable'', 422)"
  by (simp add: describe_image_root_def)

lemma analyze_image_root_valid:
  "passes_validation a req user_id lang img \<Longrightarrow>
   POST_analyze_image_root a req d =
     full_dispatch (check_and_describe describe_image_root (client a) user_id lang img d)"
  by (auto simp: passes_validation_def POST_analyze_image_root_def analyze_image_root_def
      Let_def split: sum.splits)

lemma describe_image_parsed:
  "process_image_recognition c lang img = Inr m \<Longrightarrow> parsed m = Some p \<Longrightarrow>
   describe_image c lang img =
     (error_body (str (no_attribute ''PictureDescription'' ''synonyms'')), 500)"
  by (simp add: describe_image_def getattr_PictureDescription_def on_collaborator_exception_def
      no_attribute_def)

lemma describe_image_root_parsed:
  "process_image_recognition c lang img = Inr m \<Longrightarrow> parsed m = Some p \<Longrightarrow>
   describe_image_root c lang img =
     (Json (JObj [(''name'', JStr (name p)), (''description'', JStr (description p)),
                  (''funFacts'', JList (map JStr (fun_facts p)))]), 200)"
  by (simp add: describe_image_root_def getattr_PictureDescription_def jsonify_def)

lemma parsed_result_root:
  "passes_validation a req user_id lang img \<Longrightarrow>
   fst (require_credits user_id d) = Inr () \<Longrightarrow>
   process_image_recognition (client a) lang img = Inr m \<Longrightarrow> parsed m = Some p \<Longrightarrow>
   fst (POST_analyze_image_root a req d) =
     (Json (JObj [(''name'', JStr (name p)), (''description'', JStr (description p)),
                  (''funFacts'', JList (map JStr (fun_facts p)))]), 200)"
  by (cases "require_credits user_id d")
     (simp add: analyze_image_root_valid check_and_describe_def describe_image_root_parsed
        full_dispatch_def)

lemma parsed_result_app:
  "passes_validation a req user_id lang img \<Longrightarrow>
   fst (require_credits user_id d) = Inr () \<Longrightarrow>
   process_image_recognition (client a) lang img = Inr m \<Longrightarrow> parsed m = Some p \<Longrightarrow>
   fst (POST_analyze_image a req d) =
     (Json (JObj [(''error'', JStr (str (no_attribute ''PictureDescription'' ''synonyms'')))]), 500)"
  by (cases "require_credits user_id d")
     (simp add: analyze_image_valid check_and_describe_def describe_image_parsed
        full_dispatch_def error_body_def jsonify_def)

lemma decorator_cases:
  "require_api_key_and_user_id a f req d = (Inr (error_body ''Invalid API key'', 422), d)
   \<or> require_api_key_and_user_id a f req d = (Inr (error_body ''Missing required user ID'', 422), d)
   \<or> (\<exists>u. headers req ''X-User-Id'' = Some u \<and> u \<noteq> []
          \<and> require_api_key_and_user_id a f req d = f u req d)"
  by (auto simp: require_api_key_and_user_id_def Let_def split: option.splits)

lemma serial_two_calls:
  "t u = Some 1 \<Longrightarrow>
   run_schedule [0, 0, 0, 1, 1, 1] ([(u, AtInsert), (u, AtInsert)], Some t) =
     ([(u, Finished (Inr ())), (u, Finished (Inl no_more_credits))], Some (t(u \<mapsto> 0)))"
  by (simp add: insert_or_ignore_def get_user_credits_def set_user_credits_def)

lemma ok_results_replicate:
  "length (filter (\<lambda>r. r = Inr ()) (replicate a (Inr ()) @ replicate b (Inl e))) = a"
  by (induction a) (simp_all add: filter_empty_conv)

lemma admit_times_fresh_ok_results:
  "t u = None \<Longrightarrow>
   length (filter (\<lambda>r. r = Inr ()) (fst (admit_times n u (Some t)))) = min n 10"
proof (cases n)
  case 0
  then show ?thesis by simp
next
  case (Suc m)
  assume "t u = None"
  then show ?thesis
    unfolding Suc by (simp only: admit_times_fresh fst_conv ok_results_replicate)
qed

lemma analyze_image_missing:
  "missing req ''lang'' \<or> missing req ''image'' \<Longrightarrow> snd (analyze_image a u req d) = d"
  by (auto simp: missing_def analyze_image_def split: sum.splits)

lemma analyze_image_root_missing:
  "missing req ''lang'' \<or> missing req ''image'' \<Longrightarrow> snd (analyze_image_root a req d) = d"
  by (auto simp: missing_def analyze_image_root_def split: sum.splits)

lemma analyze_image_empty_document:
  "json req = Inr data \<Longrightarrow> \<not> truthy data \<Longrightarrow>
   analyze_image a u req d = (Inr (error_body ''No data provided'', 422), d)"
  by (simp add: analyze_image_def)

lemma analyze_image_missing_fields:
  "missing req ''lang'' \<or> missing req ''image'' \<Longrightarrow> json req = Inr (JObj kvs) \<Longrightarrow>
   kvs \<noteq> [] \<Longrightarrow>
   analyze_image a u req d = (Inr (error_body ''Missing required fields'', 422), d)"
  by (auto simp: missing_def analyze_image_def dict_get_def split: sum.splits)

lemma passes_decorator_calls:
  "passes_decorator a req u \<Longrightarrow> require_api_key_and_user_id a f req d = f u req d"
  by (auto simp: passes_decorator_def require_api_key_and_user_id_def)

lemma error_shaped_fixed:
  "s \<in> set fixed_messages \<Longrightarrow> error_shaped (error_body s, n)"
  by (simp add: error_shaped_def error_body_def jsonify_def)

lemma error_shaped_500: "error_shaped (error_body s, 500)"
  by (simp add: error_shaped_def error_body_def jsonify_def)

lemma on_collaborator_exception_shaped: "error_shaped (on_collaborator_exception e)"
  by (simp add: on_collaborator_exception_def error_shaped_500 error_shaped_fixed
      fixed_messages_def)

lemma describe_image_shaped:
  "snd (describe_image c lang img) \<noteq> 200 \<Longrightarrow> error_shaped (describe_image c lang img)"
  by (auto simp: describe_image_def on_collaborator_exception_shaped error_shaped_fixed
      fixed_messages_def split: sum.splits option.splits)

lemma require_credits_raises:
  "fst (require_credits u d) = Inl e \<Longrightarrow> e = no_more_credits \<or> e = no_such_table"
  by (auto simp: require_credits_def insert_or_ignore_def get_user_credits_def
      set_user_credits_def split: option.splits if_splits)

lemma check_and_describe_shaped:
  "\<exists>rv. fst (check_and_describe describe_image c u lang img d) = Inr rv
        \<and> (snd rv \<noteq> 200 \<longrightarrow> error_shaped rv)"
proof (cases "require_credits u d")
  case (Pair r d')
  show ?thesis
  proof (cases r)
    case (Inl e)
    with Pair have "e = no_more_credits \<or> e = no_such_table"
      using require_credits_raises [of u d e] by simp
    with Pair Inl show ?thesis
      by (auto simp: check_and_describe_def no_more_credits_def no_such_table_def
          error_shaped_500 error_shaped_fixed fixed_messages_def)
  next
    case (Inr x)
    with Pair show ?thesis
      by (simp add: check_and_describe_def describe_image_shaped)
  qed
qed

lemma check_and_describe_Inr_shaped:
  assumes "fst (check_and_describe describe_image c u lang img d) = Inr rv" "snd rv \<noteq> 200"
  shows "error_shaped rv"
proof -
  from check_and_describe_shaped [of c u lang img d] obtain rv'
    where r: "fst (check_and_describe describe_image c u lang img d) = Inr rv'"
      and s: "snd rv' \<noteq> 200 \<longrightarrow> error_shaped rv'"
    by blast
  from r assms(1) have "rv' = rv" by simp
  with s assms(2) show ?thesis by simp
qed

lemma analyze_image_shaped:
  assumes "fst (analyze_image a u req d) = Inr rv" "snd rv \<noteq> 200"
  shows "error_shaped rv"
proof (cases "json req")
  case (Inl e)
  with assms(1) show ?thesis by (simp add: analyze_image_def)
next
  case (Inr data)
  note j = this
  show ?thesis
  proof (cases "truthy data")
    case False
    with j assms(1) have "rv = (error_body ''No data provided'', 422)"
      by (simp add: analyze_image_def)
    then show ?thesis by (simp add: error_shaped_fixed fixed_messages_def)
  next
    case True
    note tr = this
    show ?thesis
    proof (cases "dict_get data ''lang''")
      case (Inl e)
      with j tr assms(1) show ?thesis by (simp add: analyze_image_def)
    next
      case (Inr lang)
      note l = this
      show ?thesis
      proof (cases "dict_get data ''image''")
        case (Inl e)
        with j tr l assms(1) show ?thesis by (simp add: analyze_image_def)
      next
        case (Inr img)
        note i = this
        show ?thesis
        proof (cases "truthy lang \<and> truthy img")
          case False
          with j tr l i assms(1) have "rv = (error_body ''Missing required fields'', 422)"
            by (auto simp: analyze_image_def)
          then show ?thesis by (simp add: error_shaped_fixed fixed_messages_def)
        next
          case True
          with j tr l i assms(1)
          have "fst (check_and_describe describe_image (client a) u lang img d) = Inr rv"
            by (simp add: analyze_image_def)
          then show ?thesis using assms(2) by (rule check_and_describe_Inr_shaped)
        qed
      qed
    qed
  qed
qed

text \<open>
  An exception that escapes the handler is the one \<^verbatim>\<open>request.json\<close> raised, or it is
  no HTTP exception.
\<close>

lemma analyze_image_escapes:
  "fst (analyze_image a u req d) = Inl e \<Longrightarrow> json req = Inl e \<or> http_code (kind e) = None"
  by (auto simp: analyze_image_def dict_get_def no_attribute_def check_and_describe_def
      split: sum.splits if_splits jvalue.splits prod.splits)

lemma credits_left_escapes:
  "fst (credits_left u req d) = Inl e \<Longrightarrow> e = no_such_table"
  by (auto simp: credits_left_def get_user_credits_def split: sum.splits option.splits)

lemma credits_left_shaped:
  "fst (credits_left u req d) = Inr rv \<Longrightarrow> snd rv = 200"
  by (auto simp: credits_left_def split: sum.splits)

lemma handle_user_exception_no_code:
  "http_code (kind e) = None \<Longrightarrow>
   handle_user_exception e = (error_body ''Internal server error'', 500)"
  by (simp add: handle_user_exception_def server_error_def)

lemma handle_user_exception_code:
  "http_code (kind e) = Some c \<Longrightarrow> handle_user_exception e = (HtmlErrorPage e, c)"
  by (cases "kind e") (simp_all add: handle_user_exception_def)

lemma decorator_result:
  "(\<exists>s. s \<in> set fixed_messages
        \<and> require_api_key_and_user_id a f req d = (Inr (error_body s, 422), d))
   \<or> (\<exists>u. require_api_key_and_user_id a f req d = f u req d)"
  using decorator_cases [of a f req d] by (auto simp: fixed_messages_def)

lemma POST_analyze_image_shaped:
  assumes "snd (fst (POST_analyze_image a req d)) \<noteq> 200"
  shows "error_shaped (fst (POST_analyze_image a req d))
         \<or> (\<exists>e c. json req = Inl e \<and> http_code (kind e) = Some c
                \<and> fst (POST_analyze_image a req d) = (HtmlErrorPage e, c))"
  using decorator_result [of a "analyze_image a" req d]
proof (elim disjE exE conjE)
  fix s
  assume "s \<in> set fixed_messages"
    "require_api_key_and_user_id a (analyze_image a) req d = (Inr (error_body s, 422), d)"
  then show ?thesis
    by (simp add: POST_analyze_image_def full_dispatch_def error_shaped_fixed)
next
  fix u
  assume dec: "require_api_key_and_user_id a (analyze_image a) req d = analyze_image a u req d"
  obtain r d' where an: "analyze_image a u req d = (r, d')" by (cases "analyze_image a u req d")
  show ?thesis
  proof (cases r)
    case (Inr rv)
    with an dec have p: "fst (POST_analyze_image a req d) = rv"
      by (simp add: POST_analyze_image_def full_dispatch_def)
    from an Inr have "fst (analyze_image a u req d) = Inr rv" by simp
    moreover from assms p have "snd rv \<noteq> 200" by simp
    ultimately have "error_shaped rv" by (rule analyze_image_shaped)
    with p show ?thesis by simp
  next
    case (Inl e)
    with an dec have p: "fst (POST_analyze_image a req d) = handle_user_exception e"
      by (simp add: POST_analyze_image_def full_dispatch_def)
    from an Inl have "fst (analyze_image a u req d) = Inl e" by simp
    then have esc: "json req = Inl e \<or> http_code (kind e) = None"
      by (rule analyze_image_escapes)
    show ?thesis
    proof (cases "http_code (kind e)")
      case None
      then show ?thesis
        by (simp add: p handle_user_exception_no_code error_shaped_500)
    next
      case (Some c)
      with esc have "json req = Inl e" by simp
      with Some show ?thesis
        by (auto simp: p handle_user_exception_code)
    qed
  qed
qed

lemma GET_credits_shaped:
  assumes "snd (fst (GET_credits a req d)) \<noteq> 200"
  shows "error_shaped (fst (GET_credits a req d))"
  using decorator_result [of a credits_left req d]
proof (elim disjE exE conjE)
  fix s
  assume "s \<in> set fixed_messages"
    "require_api_key_and_user_id a credits_left req d = (Inr (error_body s, 422), d)"
  then show ?thesis
    by (simp add: GET_credits_def full_dispatch_def error_shaped_fixed)
next
  fix u
  assume dec: "require_api_key_and_user_id a credits_left req d = credits_left u req d"
  obtain r d' where cl: "credits_left u req d = (r, d')" by (cases "credits_left u req d")
  show ?thesis
  proof (cases r)
    case (Inr rv)
    with cl have "snd rv = 200" using credits_left_shaped [of u req d rv] by simp
    with cl dec Inr assms show ?thesis
      by (simp add: GET_credits_def full_dispatch_def)
  next
    case (Inl e)
    with cl have "e = no_such_table" using credits_left_escapes [of u req d e] by simp
    with cl dec Inl show ?thesis
      by (simp add: GET_credits_def full_dispatch_def handle_user_exception_no_code
          no_such_table_def error_shaped_500)
  qed
qed

lemma store_fault_message:
  "passes_validation a req u lang img \<Longrightarrow> fst (require_credits u d) = Inl e \<Longrightarrow>
   kind e \<noteq> ValueError \<Longrightarrow>
   fst (POST_analyze_image a req d) = (Json (JObj [(''error'', JStr (str e))]), 500)"
  by (cases "require_credits u d")
     (simp add: analyze_image_valid check_and_describe_def full_dispatch_def error_body_def
        jsonify_def)

lemma collaborator_fault_message:
  "passes_validation a req u lang img \<Longrightarrow> fst (require_credits u d) = Inr () \<Longrightarrow>
   process_image_recognition (client a) lang img = Inl e \<Longrightarrow>
   kind e \<noteq> LengthFinishReasonError \<Longrightarrow>
   fst (POST_analyze_image a req d) = (Json (JObj [(''error'', JStr (str e))]), 500)"
  by (cases "require_credits u d")
     (simp add: analyze_image_valid check_and_describe_def full_dispatch_def error_body_def
        jsonify_def describe_image_def on_collaborator_exception_def)

lemma balance_query_fault_generic:
  "passes_decorator a req u \<Longrightarrow> get_user_credits u d = Inl e \<Longrightarrow>
   fst (GET_credits a req d) = (Json (JObj [(''error'', JStr ''Internal server error'')]), 500)"
proof -
  assume pd: "passes_decorator a req u" and g: "get_user_credits u d = Inl e"
  from g have "e = no_such_table"
    by (simp add: get_user_credits_def split: option.splits)
  then have h: "http_code (kind e) = None"
    by (simp add: no_such_table_def)
  from g have "credits_left u req d = (Inl e, d)"
    by (simp add: credits_left_def)
  then show ?thesis
    unfolding GET_credits_def passes_decorator_calls [OF pd]
    by (simp add: full_dispatch_def handle_user_exception_no_code [OF h] error_body_def
        jsonify_def)
qed

lemma not_an_object_generic:
  "passes_decorator a req u \<Longrightarrow> json req = Inr data \<Longrightarrow> truthy data \<Longrightarrow>
   dict_get data ''lang'' = Inl e \<Longrightarrow>
   fst (POST_analyze_image a req d) =
     (Json (JObj [(''error'', JStr ''Internal server error'')]), 500)"
proof -
  assume pd: "passes_decorator a req u" and j: "json req = Inr data" and t: "truthy data"
    and g: "dict_get data ''lang'' = Inl e"
  from g have "http_code (kind e) = None"
    by (auto simp: dict_get_def no_attribute_def split: jvalue.splits)
  moreover from j t g have "analyze_image a u req d = (Inl e, d)"
    by (simp add: analyze_image_def)
  ultimately show ?thesis
    unfolding POST_analyze_image_def passes_decorator_calls [OF pd]
    by (simp add: full_dispatch_def handle_user_exception_no_code error_body_def jsonify_def)
qed

lemma request_json_fault_page:
  "passes_decorator a req u \<Longrightarrow> json req = Inl e \<Longrightarrow> http_code (kind e) = Some c \<Longrightarrow>
   fst (POST_analyze_image a req d) = (HtmlErrorPage e, c)"
proof -
  assume pd: "passes_decorator a req u" and j: "json req = Inl e"
    and c: "http_code (kind e) = Some c"
  from j have "analyze_image a u req d = (Inl e, d)"
    by (simp add: analyze_image_def)
  then show ?thesis
    unfolding POST_analyze_image_def passes_decorator_calls [OF pd]
    by (simp add: full_dispatch_def handle_user_exception_code [OF c])
qed

section \<open>Properties of the credit gate\<close>

text \<open>
  C9: for a user with no ledger entry, on an initialised ledger, one call of
  \<^verbatim>\<open>require_credits\<close> on its own does not raise: the insert-if-absent seeds the default
  of 10 credits, the read sees 10, and the call returns normally with the balance at 9.
\<close>

theorem fresh_user_first_admit_ok:
  "t user_id = None \<Longrightarrow>
   insert_or_ignore user_id (Some t) = Inr (Some (t(user_id \<mapsto> 10)))
   \<and> get_user_credits user_id (Some (t(user_id \<mapsto> 10))) = Inr (Some 10)
   \<and> require_credits user_id (Some t) = (Inr (), Some (t(user_id \<mapsto> 9)))"
  by (simp add: require_credits_absent insert_or_ignore_def get_user_credits_def)

theorem fresh_user_first_admit_ok_witness:
  "(Map.empty :: table) ''u1'' = None
   \<and> require_credits ''u1'' (init_db None) = (Inr (), Some [''u1'' \<mapsto> 9])"
  using fresh_user_first_admit_ok [of Map.empty "''u1''"]
  by (simp add: init_db_def)

text \<open>
  C2: the balance never goes negative. A call of \<^verbatim>\<open>require_credits\<close> that finds a balance
  below 1 raises the denial \<^verbatim>\<open>ValueError("No more credits left")\<close> and leaves the
  ledger as it was; through \<^verbatim>\<open>POST /analyze/image\<close> the denial is the 402 response. A
  denial never changes the ledger, whatever the ledger is, and a ledger without negative
  balances stays so across every call of the gate.
\<close>

theorem admit_floor:
  "t user_id = Some b \<Longrightarrow> b < 1 \<Longrightarrow>
   require_credits user_id (Some t) = (Inl (Exn ValueError ''No more credits left''), Some t)
   \<and> (passes_validation a req user_id lang img \<longrightarrow>
        POST_analyze_image a req (Some t) =
          ((Json (JObj [(''error'', JStr ''No more credits left'')]), 402), Some t))
   \<and> (fst (require_credits u d) = Inl (Exn ValueError ''No more credits left'')
          \<longrightarrow> snd (require_credits u d) = d)
   \<and> (nonneg d \<longrightarrow> nonneg (snd (require_credits u d)))"
proof -
  assume h: "t user_id = Some b" "b < 1"
  then have rc: "require_credits user_id (Some t) =
      (Inl (Exn ValueError ''No more credits left''), Some t)"
    by (simp add: require_credits_denied no_more_credits_def)
  have p2: "passes_validation a req user_id lang img \<longrightarrow>
        POST_analyze_image a req (Some t) =
          ((Json (JObj [(''error'', JStr ''No more credits left'')]), 402), Some t)"
    by (simp add: analyze_image_valid check_and_describe_def rc full_dispatch_def
        error_body_def jsonify_def)
  have p3: "fst (require_credits u d) = Inl (Exn ValueError ''No more credits left'')
          \<longrightarrow> snd (require_credits u d) = d"
    using require_credits_denied_frame [of u d] by (simp add: no_more_credits_def)
  have p4: "nonneg d \<longrightarrow> nonneg (snd (require_credits u d))"
    by (simp add: require_credits_nonneg)
  show ?thesis
    by (rule conjI [OF rc conjI [OF p2 conjI [OF p3 p4]]])
qed

theorem admit_floor_witness:
  "require_credits ''u1'' (Some [''u1'' \<mapsto> 0]) =
     (Inl (Exn ValueError ''No more credits left''), Some [''u1'' \<mapsto> 0])
   \<and> POST_analyze_image \<lparr>api_key = Some ''k'', client = (\<lambda>l i. Inr [])\<rparr>
        \<lparr>headers = [''X-Api-Key'' \<mapsto> ''k'', ''X-User-Id'' \<mapsto> ''u1''],
          json = Inr (JObj [(''lang'', JStr ''en''), (''image'', JStr ''AAAA'')])\<rparr>
        (Some [''u1'' \<mapsto> 0]) =
       ((Json (JObj [(''error'', JStr ''No more credits left'')]), 402), Some [''u1'' \<mapsto> 0])
   \<and> snd (require_credits ''u1'' (Some [''u1'' \<mapsto> 0])) = Some [''u1'' \<mapsto> 0]
   \<and> nonneg (snd (require_credits ''u1'' (Some [''u1'' \<mapsto> 0])))"
proof -
  have h1: "[''u1'' \<mapsto> (0::int)] ''u1'' = Some 0" by simp
  have h2: "(0::int) < 1" by simp
  have h3: "passes_validation \<lparr>api_key = Some ''k'', client = (\<lambda>l i. Inr [])\<rparr>
        \<lparr>headers = [''X-Api-Key'' \<mapsto> ''k'', ''X-User-Id'' \<mapsto> ''u1''],
          json = Inr (JObj [(''lang'', JStr ''en''), (''image'', JStr ''AAAA'')])\<rparr>
        ''u1'' (JStr ''en'') (JStr ''AAAA'')"
    by (simp add: passes_validation_def dict_get_def)
  have h4: "nonneg (Some [''u1'' \<mapsto> 0])" by (simp add: nonneg_def)
  note inst = admit_floor [where t = "[''u1'' \<mapsto> 0]" and user_id = "''u1''" and b = 0
      and a = "\<lparr>api_key = Some ''k'', client = (\<lambda>l i. Inr [])\<rparr>"
      and req = "\<lparr>headers = [''X-Api-Key'' \<mapsto> ''k'', ''X-User-Id'' \<mapsto> ''u1''],
          json = Inr (JObj [(''lang'', JStr ''en''), (''image'', JStr ''AAAA'')])\<rparr>"
      and lang = "JStr ''en''" and img = "JStr ''AAAA''"
      and u = "''u1''" and d = "Some [''u1'' \<mapsto> 0]", OF h1 h2]
  note c1 = inst [THEN conjunct1]
  note c2 = inst [THEN conjunct2, THEN conjunct1, THEN mp, OF h3]
  have f: "fst (require_credits ''u1'' (Some [''u1'' \<mapsto> 0])) =
      Inl (Exn ValueError ''No more credits left'')"
    by (simp add: c1)
  note c3 = inst [THEN conjunct2, THEN conjunct2, THEN conjunct1, THEN mp, OF f]
  note c4 = inst [THEN conjunct2, THEN conjunct2, THEN conjunct2, THEN mp, OF h4]
  show ?thesis
    by (rule conjI [OF c1 conjI [OF c2 conjI [OF c3 c4]]])
qed

text \<open>
  C3: with a stored balance \<open>b \<ge> 1\<close> the call returns normally and leaves exactly
  \<open>b - 1\<close>. The balance query leaves the ledger alone, \<^verbatim>\<open>init_db\<close> leaves an existing
  table alone, and \<^verbatim>\<open>POST /analyze/image\<close> changes the ledger only through the gate. For a
  fresh user, \<open>k\<close> calls in a row (\<open>1 \<le> k \<le> 10\<close>) all return normally and leave
  \<open>10 - k\<close>, and of 11 calls the last is denied.
\<close>

theorem admit_decrements:
  "t user_id = Some b \<Longrightarrow> 1 \<le> b \<Longrightarrow>
   require_credits user_id (Some t) = (Inr (), Some (t(user_id \<mapsto> b - 1)))
   \<and> snd (GET_credits a req d) = d
   \<and> init_db (Some t) = Some t
   \<and> (snd (POST_analyze_image a req d) = d
        \<or> (\<exists>u. headers req ''X-User-Id'' = Some u
              \<and> snd (POST_analyze_image a req d) = snd (require_credits u d)))
   \<and> (t0 u0 = None \<and> 1 \<le> k \<and> k \<le> 10 \<longrightarrow>
        admit_times k u0 (Some t0) = (replicate k (Inr ()), Some (t0(u0 \<mapsto> 10 - int k))))
   \<and> (t0 u0 = None \<longrightarrow>
        admit_times 11 u0 (Some t0) =
          (replicate 10 (Inr ()) @ [Inl (Exn ValueError ''No more credits left'')],
           Some (t0(u0 \<mapsto> 0))))"
proof -
  assume "t user_id = Some b" "1 \<le> b"
  then have p1: "require_credits user_id (Some t) = (Inr (), Some (t(user_id \<mapsto> b - 1)))"
    by (rule require_credits_ok)
  have p2: "snd (GET_credits a req d) = d"
    by (rule GET_credits_frame)
  have p3: "init_db (Some t) = Some t"
    by (simp add: init_db_def)
  have p4: "snd (POST_analyze_image a req d) = d
          \<or> (\<exists>u. headers req ''X-User-Id'' = Some u
                \<and> snd (POST_analyze_image a req d) = snd (require_credits u d))"
    by (rule POST_analyze_image_frame)
  have p5: "t0 u0 = None \<and> 1 \<le> k \<and> k \<le> 10 \<longrightarrow>
          admit_times k u0 (Some t0) = (replicate k (Inr ()), Some (t0(u0 \<mapsto> 10 - int k)))"
  proof
    assume h: "t0 u0 = None \<and> 1 \<le> k \<and> k \<le> 10"
    from h obtain n where k: "k = Suc n" and n: "n \<le> 9" by (cases k) auto
    from h have f: "t0 u0 = None" by simp
    have m: "min (Suc n) 10 = Suc n" using n by simp
    have z: "Suc n - 10 = 0" using n by simp
    show "admit_times k u0 (Some t0) = (replicate k (Inr ()), Some (t0(u0 \<mapsto> 10 - int k)))"
      unfolding k using f admit_times_fresh [of t0 u0 n]
      unfolding m z by (simp del: admit_times.simps)
  qed
  have p6: "t0 u0 = None \<longrightarrow>
          admit_times 11 u0 (Some t0) =
            (replicate 10 (Inr ()) @ [Inl (Exn ValueError ''No more credits left'')],
             Some (t0(u0 \<mapsto> 0)))"
  proof
    assume h: "t0 u0 = None"
    have e: "Suc 10 = 11" by simp
    have m: "min (11::nat) 10 = 10" by simp
    have z: "(11::nat) - 10 = Suc 0" by simp
    have i: "(10::int) - int 10 = 0" by simp
    show "admit_times 11 u0 (Some t0) =
            (replicate 10 (Inr ()) @ [Inl (Exn ValueError ''No more credits left'')],
             Some (t0(u0 \<mapsto> 0)))"
      using h admit_times_fresh [of t0 u0 10]
      unfolding e m z i no_more_credits_def replicate.simps by simp
  qed
  show ?thesis
    by (rule conjI [OF p1 conjI [OF p2 conjI [OF p3 conjI [OF p4 conjI [OF p5 p6]]]]])
qed

theorem admit_decrements_witness:
  "require_credits ''u1'' (Some [''u1'' \<mapsto> 3]) = (Inr (), Some [''u1'' \<mapsto> 2])
   \<and> admit_times 10 ''u1'' (init_db None) = (replicate 10 (Inr ()), Some [''u1'' \<mapsto> 0])
   \<and> admit_times 11 ''u1'' (init_db None) =
        (replicate 10 (Inr ()) @ [Inl (Exn ValueError ''No more credits left'')],
         Some [''u1'' \<mapsto> 0])"
proof -
  have h1: "[''u1'' \<mapsto> (3::int)] ''u1'' = Some 3" by simp
  have h2: "(1::int) \<le> 3" by simp
  have h3: "(Map.empty :: table) ''u1'' = None \<and> (1::nat) \<le> 10 \<and> (10::nat) \<le> 10" by simp
  have h4: "(Map.empty :: table) ''u1'' = None" by simp
  have i: "init_db None = Some Map.empty" by (simp add: init_db_def)
  note inst = admit_decrements [where t = "[''u1'' \<mapsto> 3]" and user_id = "''u1''" and b = 3
      and ?t0.0 = Map.empty and ?u0.0 = "''u1''" and k = 10, OF h1 h2]
  have c1: "require_credits ''u1'' (Some [''u1'' \<mapsto> 3]) = (Inr (), Some [''u1'' \<mapsto> 2])"
    using inst [THEN conjunct1] by simp
  have c5: "admit_times 10 ''u1'' (Some Map.empty) =
      (replicate 10 (Inr ()), Some [''u1'' \<mapsto> 10 - int 10])"
    by (rule inst [THEN conjunct2, THEN conjunct2, THEN conjunct2, THEN conjunct2,
          THEN conjunct1, THEN mp, OF h3])
  have c6: "admit_times 11 ''u1'' (Some Map.empty) =
        (replicate 10 (Inr ()) @ [Inl (Exn ValueError ''No more credits left'')],
         Some [''u1'' \<mapsto> 0])"
    by (rule inst [THEN conjunct2, THEN conjunct2, THEN conjunct2, THEN conjunct2,
          THEN conjunct2, THEN mp, OF h4])
  have z: "(10::int) - int 10 = 0" by simp
  show ?thesis
    unfolding i using c1 c5 c6 unfolding z by (intro conjI)
qed

text \<open>
  C1, as stated: two calls of the gate running at the same time for a user with balance 1
  give one admission and one denial, and a new user never gets more than 10 admissions
  from calls running at the same time, because the gate is serialized per user. The gate
  takes no lock and runs its three statements in three transactions, so the statements of
  two calls can alternate: both calls read 1, both write 0 and both return normally. In
  the same way eleven calls for a new user can all read 10 and all return normally.
\<close>

theorem concurrent_double_spend:
  "run_schedule [0, 1, 0, 1, 0, 1]
     ([(''u1'', AtInsert), (''u1'', AtInsert)], Some [''u1'' \<mapsto> 1]) =
     ([(''u1'', Finished (Inr ())), (''u1'', Finished (Inr ()))], Some [''u1'' \<mapsto> 0])
   \<and> ok_count (fst (run_schedule
        ([0, 1, 2, 3, 4, 5, 6, 7, 8, 9, 10] @ [0, 1, 2, 3, 4, 5, 6, 7, 8, 9, 10]
           @ [0, 1, 2, 3, 4, 5, 6, 7, 8, 9, 10])
        (replicate 11 (''u1'', AtInsert), Some Map.empty))) = 11"
proof -
  have a: "run_schedule [0, 1, 0, 1, 0, 1]
     ([(''u1'', AtInsert), (''u1'', AtInsert)], Some [''u1'' \<mapsto> 1]) =
     ([(''u1'', Finished (Inr ())), (''u1'', Finished (Inr ()))], Some [''u1'' \<mapsto> 0])"
    by (simp add: insert_or_ignore_def get_user_credits_def set_user_credits_def)
  have b: "ok_count (fst (run_schedule
        ([0, 1, 2, 3, 4, 5, 6, 7, 8, 9, 10] @ [0, 1, 2, 3, 4, 5, 6, 7, 8, 9, 10]
           @ [0, 1, 2, 3, 4, 5, 6, 7, 8, 9, 10])
        (replicate 11 (''u1'', AtInsert), Some Map.empty))) = 11"
    by code_simp
  show ?thesis by (rule conjI [OF a b])
qed

text \<open>
  C1, amended: when the two calls run one after the other, the first is admitted, the
  second is denied and the balance ends at 0; \<open>n\<close> calls for a new user, one after the
  other, give exactly \<open>min n 10\<close> admissions. Three steps of one call in a row are one
  call of \<^verbatim>\<open>require_credits\<close>. Under every schedule, also an interleaved one, no balance
  becomes negative.
\<close>

theorem sequential_admits:
  "(t u = Some 1 \<longrightarrow>
      run_schedule [0, 0, 0, 1, 1, 1] ([(u, AtInsert), (u, AtInsert)], Some t) =
        ([(u, Finished (Inr ())),
          (u, Finished (Inl (Exn ValueError ''No more credits left'')))],
         Some (t(u \<mapsto> 0))))
   \<and> (t u = None \<longrightarrow>
      length (filter (\<lambda>r. r = Inr ()) (fst (admit_times n u (Some t)))) = min n 10)
   \<and> run_schedule [0, 0, 0] ([(u, AtInsert)], d) =
        ([(u, Finished (fst (require_credits u d)))], snd (require_credits u d))
   \<and> (nonneg d \<longrightarrow> nonneg (snd (run_schedule sched (calls, d))))"
proof -
  have p1: "t u = Some 1 \<longrightarrow>
      run_schedule [0, 0, 0, 1, 1, 1] ([(u, AtInsert), (u, AtInsert)], Some t) =
        ([(u, Finished (Inr ())),
          (u, Finished (Inl (Exn ValueError ''No more credits left'')))],
         Some (t(u \<mapsto> 0)))"
    using serial_two_calls [of t u] by (simp add: no_more_credits_def)
  have p2: "t u = None \<longrightarrow>
      length (filter (\<lambda>r. r = Inr ()) (fst (admit_times n u (Some t)))) = min n 10"
    using admit_times_fresh_ok_results [of t u n] by blast
  have p3: "run_schedule [0, 0, 0] ([(u, AtInsert)], d) =
        ([(u, Finished (fst (require_credits u d)))], snd (require_credits u d))"
    by (rule admit_steps_require_credits)
  have p4: "nonneg d \<longrightarrow> nonneg (snd (run_schedule sched (calls, d)))"
    using run_schedule_nonneg [of "(calls, d)" sched] by simp
  show ?thesis
    by (rule conjI [OF p1 conjI [OF p2 conjI [OF p3 p4]]])
qed

theorem sequential_admits_witness:
  "run_schedule [0, 0, 0, 1, 1, 1] ([(''u1'', AtInsert), (''u1'', AtInsert)], Some [''u1'' \<mapsto> 1]) =
     ([(''u1'', Finished (Inr ())),
       (''u1'', Finished (Inl (Exn ValueError ''No more credits left'')))],
      Some [''u1'' \<mapsto> 0])
   \<and> length (filter (\<lambda>r. r = Inr ()) (fst (admit_times 12 ''u2'' (Some [''u1'' \<mapsto> 1])))) = 10
   \<and> nonneg (snd (run_schedule [0, 1, 0, 1, 0, 1]
        ([(''u1'', AtInsert), (''u1'', AtInsert)], Some [''u1'' \<mapsto> 1])))"
proof -
  have h1: "[''u1'' \<mapsto> (1::int)] ''u1'' = Some 1" by simp
  have h2: "[''u1'' \<mapsto> (1::int)] ''u2'' = None" by simp
  have h4: "nonneg (Some [''u1'' \<mapsto> 1])" by (simp add: nonneg_def)
  have m: "min (12::nat) 10 = 10" by simp
  note c1 = sequential_admits [where t = "[''u1'' \<mapsto> 1]" and u = "''u1''",
      THEN conjunct1, THEN mp, OF h1]
  note c2 = sequential_admits [where t = "[''u1'' \<mapsto> 1]" and u = "''u2''" and n = 12,
      THEN conjunct2, THEN conjunct1, THEN mp, OF h2, unfolded m]
  note c4 = sequential_admits [where d = "Some [''u1'' \<mapsto> 1]"
      and sched = "[0, 1, 0, 1, 0, 1]" and calls = "[(''u1'', AtInsert), (''u1'', AtInsert)]",
      THEN conjunct2, THEN conjunct2, THEN conjunct2, THEN mp, OF h4]
  have c1': "run_schedule [0, 0, 0, 1, 1, 1]
       ([(''u1'', AtInsert), (''u1'', AtInsert)], Some [''u1'' \<mapsto> 1]) =
     ([(''u1'', Finished (Inr ())),
       (''u1'', Finished (Inl (Exn ValueError ''No more credits left'')))],
      Some [''u1'' \<mapsto> 0])"
    using c1 by simp
  show ?thesis
    by (rule conjI [OF c1' conjI [OF c2 c4]])
qed


section \<open>Properties of the admission layer\<close>

text \<open>
  C6: the balance query. On an initialised ledger \<^verbatim>\<open>get_user_credits\<close> returns the stored
  balance, or nothing for a user without a row; \<^verbatim>\<open>GET /credits\<close> with a valid API key and
  user id answers 200 with that balance, 0 when there is no row, and hands the ledger back
  as it was (no row is created); asking again gives the same answer.
\<close>

theorem balance_query_read_only:
  "truthy_str (headers req ''X-Api-Key'') \<Longrightarrow> headers req ''X-Api-Key'' = api_key a \<Longrightarrow>
   headers req ''X-User-Id'' = Some user_id \<Longrightarrow> user_id \<noteq> [] \<Longrightarrow>
   get_user_credits user_id (Some t) = Inr (t user_id)
   \<and> GET_credits a req (Some t) =
       ((Json (JObj [(''credits'', JInt (case t user_id of None \<Rightarrow> 0 | Some c \<Rightarrow> c))]), 200), Some t)
   \<and> GET_credits a req (snd (GET_credits a req (Some t))) = GET_credits a req (Some t)"
proof -
  assume h: "truthy_str (headers req ''X-Api-Key'')" "headers req ''X-Api-Key'' = api_key a"
    "headers req ''X-User-Id'' = Some user_id" "user_id \<noteq> []"
  have p1: "get_user_credits user_id (Some t) = Inr (t user_id)"
    by (simp add: get_user_credits_def)
  have c: "credits_or_0 (t user_id) = (case t user_id of None \<Rightarrow> 0 | Some c \<Rightarrow> c)"
    by (simp add: credits_or_0_def split: option.splits)
  have p2: "GET_credits a req (Some t) =
       ((Json (JObj [(''credits'', JInt (case t user_id of None \<Rightarrow> 0 | Some c \<Rightarrow> c))]), 200), Some t)"
    unfolding GET_credits_def decorator_passes [OF h]
    by (simp add: credits_left_def p1 c full_dispatch_def jsonify_def)
  have p3: "GET_credits a req (snd (GET_credits a req (Some t))) = GET_credits a req (Some t)"
    by (simp add: GET_credits_frame)
  show ?thesis
    by (rule conjI [OF p1 conjI [OF p2 p3]])
qed

theorem balance_query_read_only_witness:
  "GET_credits \<lparr>api_key = Some ''k'', client = (\<lambda>l i. Inr [])\<rparr>
     \<lparr>headers = [''X-Api-Key'' \<mapsto> ''k'', ''X-User-Id'' \<mapsto> ''u2''], json = Inr JNull\<rparr>
     (Some [''u1'' \<mapsto> 7]) = ((Json (JObj [(''credits'', JInt 0)]), 200), Some [''u1'' \<mapsto> 7])
   \<and> GET_credits \<lparr>api_key = Some ''k'', client = (\<lambda>l i. Inr [])\<rparr>
     \<lparr>headers = [''X-Api-Key'' \<mapsto> ''k'', ''X-User-Id'' \<mapsto> ''u1''], json = Inr JNull\<rparr>
     (Some [''u1'' \<mapsto> 7]) = ((Json (JObj [(''credits'', JInt 7)]), 200), Some [''u1'' \<mapsto> 7])"
proof -
  let ?a = "\<lparr>api_key = Some ''k'', client = (\<lambda>l i. Inr [])\<rparr>"
  let ?r2 = "\<lparr>headers = [''X-Api-Key'' \<mapsto> ''k'', ''X-User-Id'' \<mapsto> ''u2''], json = Inr JNull\<rparr>"
  let ?r1 = "\<lparr>headers = [''X-Api-Key'' \<mapsto> ''k'', ''X-User-Id'' \<mapsto> ''u1''], json = Inr JNull\<rparr>"
  have a2: "truthy_str (headers ?r2 ''X-Api-Key'')" "headers ?r2 ''X-Api-Key'' = api_key ?a"
    "headers ?r2 ''X-User-Id'' = Some ''u2''" "''u2'' \<noteq> []"
    by simp_all
  have a1: "truthy_str (headers ?r1 ''X-Api-Key'')" "headers ?r1 ''X-Api-Key'' = api_key ?a"
    "headers ?r1 ''X-User-Id'' = Some ''u1''" "''u1'' \<noteq> []"
    by simp_all
  have c2: "GET_credits ?a ?r2 (Some [''u1'' \<mapsto> 7]) =
      ((Json (JObj [(''credits'', JInt 0)]), 200), Some [''u1'' \<mapsto> 7])"
    using balance_query_read_only [OF a2, of "[''u1'' \<mapsto> 7]", THEN conjunct2, THEN conjunct1]
    by simp
  have c1: "GET_credits ?a ?r1 (Some [''u1'' \<mapsto> 7]) =
      ((Json (JObj [(''credits'', JInt 7)]), 200), Some [''u1'' \<mapsto> 7])"
    using balance_query_read_only [OF a1, of "[''u1'' \<mapsto> 7]", THEN conjunct2, THEN conjunct1]
    by simp
  show ?thesis
    by (rule conjI [OF c2 c1])
qed

text \<open>
  C10: \<^verbatim>\<open>GET /credits\<close> in \<^verbatim>\<open>src/app/server.py\<close> needs the API key. When the
  \<^verbatim>\<open>X-Api-Key\<close> header is missing, empty or different from the configured key, the answer
  is 422 with \<^verbatim>\<open>{"error": "Invalid API key"}\<close> whatever the \<^verbatim>\<open>X-User-Id\<close> header is, and
  the ledger is neither read nor changed: the answer is the same for every state of the
  database, also for one without the table, where a read would raise.
\<close>

theorem credits_requires_api_key:
  "headers req ''X-Api-Key'' = None \<or> headers req ''X-Api-Key'' = Some []
     \<or> headers req ''X-Api-Key'' \<noteq> api_key a \<Longrightarrow>
   GET_credits a req d = ((Json (JObj [(''error'', JStr ''Invalid API key'')]), 422), d)"
proof -
  assume "headers req ''X-Api-Key'' = None \<or> headers req ''X-Api-Key'' = Some []
     \<or> headers req ''X-Api-Key'' \<noteq> api_key a"
  then have "\<not> truthy_str (headers req ''X-Api-Key'') \<or> headers req ''X-Api-Key'' \<noteq> api_key a"
    by (elim disjE) simp_all
  then show ?thesis
    unfolding GET_credits_def
    by (simp only: decorator_rejects_key) (simp add: full_dispatch_def error_body_def jsonify_def)
qed

theorem credits_requires_api_key_witness:
  "GET_credits \<lparr>api_key = Some ''k'', client = (\<lambda>l i. Inr [])\<rparr>
     \<lparr>headers = Map.empty, json = Inr JNull\<rparr> None =
     ((Json (JObj [(''error'', JStr ''Invalid API key'')]), 422), None)
   \<and> GET_credits \<lparr>api_key = Some ''k'', client = (\<lambda>l i. Inr [])\<rparr>
     \<lparr>headers = [''X-Api-Key'' \<mapsto> ''wrong'', ''X-User-Id'' \<mapsto> ''u1''], json = Inr JNull\<rparr>
     (Some [''u1'' \<mapsto> 7]) =
     ((Json (JObj [(''error'', JStr ''Invalid API key'')]), 422), Some [''u1'' \<mapsto> 7])"
proof -
  let ?a = "\<lparr>api_key = Some ''k'', client = (\<lambda>l i. Inr [])\<rparr>"
  let ?r0 = "\<lparr>headers = Map.empty, json = Inr JNull\<rparr>"
  let ?r1 = "\<lparr>headers = [''X-Api-Key'' \<mapsto> ''wrong'', ''X-User-Id'' \<mapsto> ''u1''], json = Inr JNull\<rparr>"
  have h0: "headers ?r0 ''X-Api-Key'' = None \<or> headers ?r0 ''X-Api-Key'' = Some []
     \<or> headers ?r0 ''X-Api-Key'' \<noteq> api_key ?a"
    by simp
  have h1: "headers ?r1 ''X-Api-Key'' = None \<or> headers ?r1 ''X-Api-Key'' = Some []
     \<or> headers ?r1 ''X-Api-Key'' \<noteq> api_key ?a"
    by simp
  show ?thesis
    by (rule conjI [OF credits_requires_api_key [OF h0] credits_requires_api_key [OF h1]])
qed

text \<open>
  C7: a request that passes validation, for a user with a balance of at least 1, to which
  the collaborator answers with a refusal (no parsed result, a non-empty refusal text),
  gets 422 with \<^verbatim>\<open>{"error": "Image is not processable"}\<close>, and the balance has gone down by
  exactly 1. Both entry points behave so.
\<close>

theorem refusal_keeps_debit:
  "passes_validation a req user_id lang img \<Longrightarrow> t user_id = Some b \<Longrightarrow> 1 \<le> b \<Longrightarrow>
   process_image_recognition (client a) lang img = Inr m \<Longrightarrow> parsed m = None \<Longrightarrow>
   truthy_str (refusal m) \<Longrightarrow>
   POST_analyze_image a req (Some t) =
     ((Json (JObj [(''error'', JStr ''Image is not processable'')]), 422), Some (t(user_id \<mapsto> b - 1)))
   \<and> POST_analyze_image_root a req (Some t) =
     ((Json (JObj [(''error'', JStr ''Image is not processable'')]), 422), Some (t(user_id \<mapsto> b - 1)))"
proof -
  assume v: "passes_validation a req user_id lang img"
    and b: "t user_id = Some b" "1 \<le> b"
    and m: "process_image_recognition (client a) lang img = Inr m" "parsed m = None"
      "truthy_str (refusal m)"
  have rc: "require_credits user_id (Some t) = (Inr (), Some (t(user_id \<mapsto> b - 1)))"
    using b by (rule require_credits_ok)
  have p1: "POST_analyze_image a req (Some t) =
     ((Json (JObj [(''error'', JStr ''Image is not processable'')]), 422), Some (t(user_id \<mapsto> b - 1)))"
    unfolding analyze_image_valid [OF v] check_and_describe_ok [OF rc]
      describe_image_refusal [OF m]
    by (simp add: full_dispatch_def error_body_def jsonify_def)
  have p2: "POST_analyze_image_root a req (Some t) =
     ((Json (JObj [(''error'', JStr ''Image is not processable'')]), 422), Some (t(user_id \<mapsto> b - 1)))"
    unfolding analyze_image_root_valid [OF v] check_and_describe_ok [OF rc]
      describe_image_root_refusal [OF m]
    by (simp add: full_dispatch_def error_body_def jsonify_def)
  show ?thesis by (rule conjI [OF p1 p2])
qed

theorem refusal_keeps_debit_witness:
  "POST_analyze_image
     \<lparr>api_key = Some ''k'',
       client = (\<lambda>l i. Inr [\<lparr>parsed = None, refusal = Some ''I cannot help with that''\<rparr>])\<rparr>
     \<lparr>headers = [''X-Api-Key'' \<mapsto> ''k'', ''X-User-Id'' \<mapsto> ''u1''],
       json = Inr (JObj [(''lang'', JStr ''en''), (''image'', JStr ''AAAA'')])\<rparr>
     (Some [''u1'' \<mapsto> 1]) =
     ((Json (JObj [(''error'', JStr ''Image is not processable'')]), 422), Some [''u1'' \<mapsto> 0])"
proof -
  let ?m = "\<lparr>parsed = None, refusal = Some ''I cannot help with that''\<rparr>"
  let ?a = "\<lparr>api_key = Some ''k'', client = (\<lambda>l i. Inr [?m])\<rparr>"
  let ?r = "\<lparr>headers = [''X-Api-Key'' \<mapsto> ''k'', ''X-User-Id'' \<mapsto> ''u1''],
       json = Inr (JObj [(''lang'', JStr ''en''), (''image'', JStr ''AAAA'')])\<rparr>"
  have h1: "passes_validation ?a ?r ''u1'' (JStr ''en'') (JStr ''AAAA'')"
    by (simp add: passes_validation_def dict_get_def)
  have h2: "[''u1'' \<mapsto> (1::int)] ''u1'' = Some 1" by simp
  have h3: "(1::int) \<le> 1" by simp
  have h4: "process_image_recognition (client ?a) (JStr ''en'') (JStr ''AAAA'') = Inr ?m"
    by (simp add: process_image_recognition_def)
  have h5: "parsed ?m = None" by simp
  have h6: "truthy_str (refusal ?m)" by simp
  show ?thesis
    using refusal_keeps_debit [where a = ?a and req = ?r and user_id = "''u1''"
        and lang = "JStr ''en''" and img = "JStr ''AAAA''" and t = "[''u1'' \<mapsto> 1]" and b = 1
        and m = ?m, OF h1 h2 h3 h4 h5 h6, THEN conjunct1]
    by simp
qed

text \<open>
  C4: a request that passes validation and admission, answered by the collaborator with a
  parsed result, should get the body \<^verbatim>\<open>{name, description, funFacts}\<close>. The handler of
  \<^verbatim>\<open>src/server.py\<close> builds it (lemma \<open>parsed_result_root\<close>). The handler of
  \<^verbatim>\<open>src/app/server.py\<close> reads \<^verbatim>\<open>parsed.synonyms\<close>, an attribute that
  \<^verbatim>\<open>PictureDescription\<close> does not declare, so every such request ends in the
  \<^verbatim>\<open>except\<close> clause (lemma \<open>parsed_result_app\<close>). Here a fresh user sends a valid request
  and the collaborator describes a cat: the answer is 500 with the text of the
  \<^verbatim>\<open>AttributeError\<close>, and the credit is spent.
\<close>

theorem parsed_result_answers_500:
  "POST_analyze_image
     \<lparr>api_key = Some ''k'',
       client = (\<lambda>l i. Inr [\<lparr>parsed = Some \<lparr>name = ''cat'', description = ''a small animal'',
                                fun_facts = [''it purrs'', ''it naps'', ''it hunts'']\<rparr>,
                              refusal = None\<rparr>])\<rparr>
     \<lparr>headers = [''X-Api-Key'' \<mapsto> ''k'', ''X-User-Id'' \<mapsto> ''u1''],
       json = Inr (JObj [(''lang'', JStr ''en''), (''image'', JStr ''AAAA'')])\<rparr>
     (Some Map.empty) =
     ((Json (JObj [(''error'',
              JStr (CHR 0x27 # ''PictureDescription'' @ CHR 0x27 # '' object has no attribute ''
                    @ CHR 0x27 # ''synonyms'' @ [CHR 0x27]))]), 500),
      Some [''u1'' \<mapsto> 9])"
proof -
  let ?p = "\<lparr>name = ''cat'', description = ''a small animal'',
             fun_facts = [''it purrs'', ''it naps'', ''it hunts'']\<rparr>"
  let ?m = "\<lparr>parsed = Some ?p, refusal = None\<rparr>"
  let ?a = "\<lparr>api_key = Some ''k'', client = (\<lambda>l i. Inr [?m])\<rparr>"
  let ?r = "\<lparr>headers = [''X-Api-Key'' \<mapsto> ''k'', ''X-User-Id'' \<mapsto> ''u1''],
       json = Inr (JObj [(''lang'', JStr ''en''), (''image'', JStr ''AAAA'')])\<rparr>"
  have v: "passes_validation ?a ?r ''u1'' (JStr ''en'') (JStr ''AAAA'')"
    by (simp add: passes_validation_def dict_get_def)
  have rc: "require_credits ''u1'' (Some Map.empty) = (Inr (), Some [''u1'' \<mapsto> 9])"
    by (simp add: require_credits_absent)
  have m: "process_image_recognition (client ?a) (JStr ''en'') (JStr ''AAAA'') = Inr ?m"
    by (simp add: process_image_recognition_def)
  have p: "parsed ?m = Some ?p" by simp
  show ?thesis
    unfolding analyze_image_valid [OF v] check_and_describe_ok [OF rc]
      describe_image_parsed [OF m p]
    by (simp add: full_dispatch_def error_body_def jsonify_def no_attribute_def quote_def)
qed

text \<open>
  C5, as stated: every request to \<^verbatim>\<open>POST /analyze/image\<close> that lacks the language tag
  or the image payload is rejected with the missing-fields outcome. A request with a valid
  API key and user id whose body is the empty object lacks both fields, and the handler's
  test \<^verbatim>\<open>if not data\<close> answers it first, with \<^verbatim>\<open>{"error": "No data provided"}\<close>.
\<close>

theorem missing_fields_outcome_counterexample:
  "missing \<lparr>headers = [''X-Api-Key'' \<mapsto> ''k'', ''X-User-Id'' \<mapsto> ''u1''],
             json = Inr (JObj [])\<rparr> ''lang''
   \<and> passes_decorator \<lparr>api_key = Some ''k'', client = (\<lambda>l i. Inr [])\<rparr>
        \<lparr>headers = [''X-Api-Key'' \<mapsto> ''k'', ''X-User-Id'' \<mapsto> ''u1''],
          json = Inr (JObj [])\<rparr> ''u1''
   \<and> fst (POST_analyze_image \<lparr>api_key = Some ''k'', client = (\<lambda>l i. Inr [])\<rparr>
       \<lparr>headers = [''X-Api-Key'' \<mapsto> ''k'', ''X-User-Id'' \<mapsto> ''u1''],
         json = Inr (JObj [])\<rparr>
       (Some [''u1'' \<mapsto> 5])) = (Json (JObj [(''error'', JStr ''No data provided'')]), 422)
   \<and> fst (POST_analyze_image \<lparr>api_key = Some ''k'', client = (\<lambda>l i. Inr [])\<rparr>
       \<lparr>headers = [''X-Api-Key'' \<mapsto> ''k'', ''X-User-Id'' \<mapsto> ''u1''],
         json = Inr (JObj [])\<rparr>
       (Some [''u1'' \<mapsto> 5])) \<noteq>
       (Json (JObj [(''error'', JStr ''Missing required fields'')]), 422)"
  by (simp add: missing_def dict_get_def passes_decorator_def POST_analyze_image_def
      require_api_key_and_user_id_def analyze_image_def full_dispatch_def error_body_def
      jsonify_def)

text \<open>
  C5, amended: a request that lacks the language tag or the image payload never reaches
  the credit gate, so the ledger is handed back unchanged, whatever it holds, on both
  entry points. For a request that passed the API-key and user-id checks, the answer is
  422 with \<^verbatim>\<open>{"error": "Missing required fields"}\<close> when \<^verbatim>\<open>request.json\<close> returns an
  object that is not empty, and 422 with \<^verbatim>\<open>{"error": "No data provided"}\<close> when it
  returns an empty document.
\<close>

theorem missing_fields_cost_nothing:
  "missing req ''lang'' \<or> missing req ''image'' \<Longrightarrow>
   snd (POST_analyze_image a req d) = d
   \<and> snd (POST_analyze_image_root a req d) = d
   \<and> (passes_decorator a req u \<and> json req = Inr (JObj kvs) \<and> kvs \<noteq> [] \<longrightarrow>
        fst (POST_analyze_image a req d) =
          (Json (JObj [(''error'', JStr ''Missing required fields'')]), 422))
   \<and> (passes_decorator a req u \<and> json req = Inr data \<and> \<not> truthy data \<longrightarrow>
        fst (POST_analyze_image a req d) =
          (Json (JObj [(''error'', JStr ''No data provided'')]), 422))"
proof -
  assume mis: "missing req ''lang'' \<or> missing req ''image''"
  have p1: "snd (POST_analyze_image a req d) = d"
    using decorator_cases [of a "analyze_image a" req d]
  proof (elim disjE exE conjE)
    fix w
    assume "require_api_key_and_user_id a (analyze_image a) req d = analyze_image a w req d"
    then show ?thesis
      unfolding POST_analyze_image_def full_dispatch_snd
      by (simp add: analyze_image_missing [OF mis])
  qed (simp_all add: POST_analyze_image_def full_dispatch_snd)
  have p2: "snd (POST_analyze_image_root a req d) = d"
    unfolding POST_analyze_image_root_def full_dispatch_snd
    by (rule analyze_image_root_missing [OF mis])
  have p3: "passes_decorator a req u \<and> json req = Inr (JObj kvs) \<and> kvs \<noteq> [] \<longrightarrow>
        fst (POST_analyze_image a req d) =
          (Json (JObj [(''error'', JStr ''Missing required fields'')]), 422)"
  proof
    assume h: "passes_decorator a req u \<and> json req = Inr (JObj kvs) \<and> kvs \<noteq> []"
    then have pd: "passes_decorator a req u" and j: "json req = Inr (JObj kvs)"
      and k: "kvs \<noteq> []"
      by simp_all
    show "fst (POST_analyze_image a req d) =
          (Json (JObj [(''error'', JStr ''Missing required fields'')]), 422)"
      unfolding POST_analyze_image_def passes_decorator_calls [OF pd]
        analyze_image_missing_fields [OF mis j k]
      by (simp add: full_dispatch_def error_body_def jsonify_def)
  qed
  have p4: "passes_decorator a req u \<and> json req = Inr data \<and> \<not> truthy data \<longrightarrow>
        fst (POST_analyze_image a req d) =
          (Json (JObj [(''error'', JStr ''No data provided'')]), 422)"
  proof
    assume h: "passes_decorator a req u \<and> json req = Inr data \<and> \<not> truthy data"
    then have pd: "passes_decorator a req u" and j: "json req = Inr data"
      and k: "\<not> truthy data"
      by simp_all
    show "fst (POST_analyze_image a req d) =
          (Json (JObj [(''error'', JStr ''No data provided'')]), 422)"
      unfolding POST_analyze_image_def passes_decorator_calls [OF pd]
        analyze_image_empty_document [OF j k]
      by (simp add: full_dispatch_def error_body_def jsonify_def)
  qed
  show ?thesis
    by (rule conjI [OF p1 conjI [OF p2 conjI [OF p3 p4]]])
qed

theorem missing_fields_cost_nothing_witness:
  "POST_analyze_image \<lparr>api_key = Some ''k'', client = (\<lambda>l i. Inr [])\<rparr>
     \<lparr>headers = [''X-Api-Key'' \<mapsto> ''k'', ''X-User-Id'' \<mapsto> ''u1''],
       json = Inr (JObj [(''image'', JStr ''AAAA'')])\<rparr>
     (Some [''u1'' \<mapsto> 5]) =
   ((Json (JObj [(''error'', JStr ''Missing required fields'')]), 422), Some [''u1'' \<mapsto> 5])
   \<and> POST_analyze_image \<lparr>api_key = Some ''k'', client = (\<lambda>l i. Inr [])\<rparr>
     \<lparr>headers = [''X-Api-Key'' \<mapsto> ''k'', ''X-User-Id'' \<mapsto> ''u1''], json = Inr (JObj [])\<rparr>
     (Some [''u1'' \<mapsto> 5]) =
   ((Json (JObj [(''error'', JStr ''No data provided'')]), 422), Some [''u1'' \<mapsto> 5])
   \<and> snd (POST_analyze_image \<lparr>api_key = Some ''k'', client = (\<lambda>l i. Inr [])\<rparr>
     \<lparr>headers = [''X-Api-Key'' \<mapsto> ''k'', ''X-User-Id'' \<mapsto> ''u1''],
       json = Inl (Exn BadRequest ''400 Bad Request'')\<rparr>
     (Some [''u1'' \<mapsto> 5])) = Some [''u1'' \<mapsto> 5]"
proof -
  let ?a = "\<lparr>api_key = Some ''k'', client = (\<lambda>l i. Inr [])\<rparr>"
  let ?kvs = "[(''image'', JStr ''AAAA'')]"
  let ?r = "\<lparr>headers = [''X-Api-Key'' \<mapsto> ''k'', ''X-User-Id'' \<mapsto> ''u1''],
       json = Inr (JObj ?kvs)\<rparr>"
  let ?re = "\<lparr>headers = [''X-Api-Key'' \<mapsto> ''k'', ''X-User-Id'' \<mapsto> ''u1''],
       json = Inr (JObj [])\<rparr>"
  let ?rx = "\<lparr>headers = [''X-Api-Key'' \<mapsto> ''k'', ''X-User-Id'' \<mapsto> ''u1''],
       json = Inl (Exn BadRequest ''400 Bad Request'')\<rparr>"
  let ?d = "Some [''u1'' \<mapsto> (5::int)]"
  have h: "missing ?r ''lang'' \<or> missing ?r ''image''"
    by (simp add: missing_def dict_get_def)
  have h0: "missing ?re ''lang'' \<or> missing ?re ''image''"
    by (simp add: missing_def dict_get_def)
  have hb: "missing ?rx ''lang'' \<or> missing ?rx ''image''"
    by (simp add: missing_def)
  have g1: "passes_decorator ?a ?r ''u1''" and g01: "passes_decorator ?a ?re ''u1''"
    by (simp_all add: passes_decorator_def)
  have g2: "json ?r = Inr (JObj ?kvs)"
    by simp
  have g02: "json ?re = Inr (JObj [])"
    by simp
  have g3: "?kvs \<noteq> []"
    by simp
  have g03: "\<not> truthy (JObj [])"
    by simp
  note g = conjI [OF g1 conjI [OF g2 g3]]
  note g0 = conjI [OF g01 conjI [OF g02 g03]]
  note inst = missing_fields_cost_nothing [where req = ?r and a = ?a and d = ?d
      and kvs = ?kvs and u = "''u1''", OF h]
  note inst0 = missing_fields_cost_nothing [where req = ?re and a = ?a and d = ?d
      and data = "JObj []" and u = "''u1''", OF h0]
  note instb = missing_fields_cost_nothing [where req = ?rx and a = ?a and d = ?d, OF hb]
  have c1: "snd (POST_analyze_image ?a ?r ?d) = ?d"
    by (rule inst [THEN conjunct1])
  have c3: "fst (POST_analyze_image ?a ?r ?d) =
      (Json (JObj [(''error'', JStr ''Missing required fields'')]), 422)"
    by (rule inst [THEN conjunct2, THEN conjunct2, THEN conjunct1, THEN mp, OF g])
  have d1: "snd (POST_analyze_image ?a ?re ?d) = ?d"
    by (rule inst0 [THEN conjunct1])
  have d4: "fst (POST_analyze_image ?a ?re ?d) =
      (Json (JObj [(''error'', JStr ''No data provided'')]), 422)"
    by (rule inst0 [THEN conjunct2, THEN conjunct2, THEN conjunct2, THEN mp, OF g0])
  have b1: "snd (POST_analyze_image ?a ?rx ?d) = ?d"
    by (rule instb [THEN conjunct1])
  have e1: "POST_analyze_image ?a ?r ?d =
      ((Json (JObj [(''error'', JStr ''Missing required fields'')]), 422), ?d)"
    by (rule prod_eqI) (simp_all only: c1 c3 fst_conv snd_conv)
  have e2: "POST_analyze_image ?a ?re ?d =
      ((Json (JObj [(''error'', JStr ''No data provided'')]), 422), ?d)"
    by (rule prod_eqI) (simp_all only: d1 d4 fst_conv snd_conv)
  show ?thesis
    by (rule conjI [OF e1 conjI [OF e2 b1]])
qed

text \<open>
  C8, as stated: no error body carries internal error detail, and store faults and
  unexpected collaborator faults are reported with a generic message. The handler answers
  such faults with \<^verbatim>\<open>str(e)\<close>: when the collaborator raises an exception with the text
  \<^verbatim>\<open>Connection error.\<close>, that text is the body's \<^verbatim>\<open>error\<close> field.
\<close>

theorem error_detail_counterexample:
  "POST_analyze_image
     \<lparr>api_key = Some ''k'', client = (\<lambda>l i. Inl (Exn OtherError ''Connection error.''))\<rparr>
     \<lparr>headers = [''X-Api-Key'' \<mapsto> ''k'', ''X-User-Id'' \<mapsto> ''u1''],
       json = Inr (JObj [(''lang'', JStr ''en''), (''image'', JStr ''AAAA'')])\<rparr>
     (Some [''u1'' \<mapsto> 5]) =
   ((Json (JObj [(''error'', JStr ''Connection error.'')]), 500), Some [''u1'' \<mapsto> 4])
   \<and> ''Connection error.'' \<noteq> ''Internal server error''"
proof -
  let ?a = "\<lparr>api_key = Some ''k'', client = (\<lambda>l i. Inl (Exn OtherError ''Connection error.''))\<rparr>"
  let ?r = "\<lparr>headers = [''X-Api-Key'' \<mapsto> ''k'', ''X-User-Id'' \<mapsto> ''u1''],
       json = Inr (JObj [(''lang'', JStr ''en''), (''image'', JStr ''AAAA'')])\<rparr>"
  have v: "passes_validation ?a ?r ''u1'' (JStr ''en'') (JStr ''AAAA'')"
    by (simp add: passes_validation_def dict_get_def)
  have rc: "require_credits ''u1'' (Some [''u1'' \<mapsto> 5]) = (Inr (), Some [''u1'' \<mapsto> 4])"
    by (simp add: require_credits_ok)
  have "POST_analyze_image ?a ?r (Some [''u1'' \<mapsto> 5]) =
      ((Json (JObj [(''error'', JStr ''Connection error.'')]), 500), Some [''u1'' \<mapsto> 4])"
    unfolding analyze_image_valid [OF v] check_and_describe_ok [OF rc]
    by (simp add: full_dispatch_def describe_image_def process_image_recognition_def
        on_collaborator_exception_def error_body_def jsonify_def)
  then show ?thesis by simp
qed

text \<open>
  C8, amended, for the routes \<^verbatim>\<open>GET /credits\<close> and \<^verbatim>\<open>POST /analyze/image\<close>: every
  response with a status other than 200 is a JSON object with the single string field
  \<^verbatim>\<open>error\<close>, except when \<^verbatim>\<open>request.json\<close> raises an HTTP exception, which the framework
  answers with its own page under the exception's code; unless the status is 500 the
  string is one of the literals of the handlers. An exception of the gate that is not a
  \<^verbatim>\<open>ValueError\<close> (a store fault), and an exception of the collaborator call that is not a
  \<^verbatim>\<open>LengthFinishReasonError\<close>, are answered with status 500 and the exception's own text.
  An exception that escapes a handler (a store fault during the balance query, a body that
  is not an object) is answered with status 500 and the text
  \<^verbatim>\<open>Internal server error\<close>.
\<close>

theorem error_bodies:
  "(snd (fst (POST_analyze_image a req d)) \<noteq> 200 \<longrightarrow>
      (\<exists>s. fst (fst (POST_analyze_image a req d)) = Json (JObj [(''error'', JStr s)])
           \<and> (s \<in> set fixed_messages \<or> snd (fst (POST_analyze_image a req d)) = 500))
      \<or> (\<exists>x c. json req = Inl x \<and> http_code (kind x) = Some c
             \<and> fst (POST_analyze_image a req d) = (HtmlErrorPage x, c)))
   \<and> (snd (fst (GET_credits a req d)) \<noteq> 200 \<longrightarrow>
      (\<exists>s. fst (fst (GET_credits a req d)) = Json (JObj [(''error'', JStr s)])
           \<and> (s \<in> set fixed_messages \<or> snd (fst (GET_credits a req d)) = 500)))
   \<and> (passes_validation a req u lang img \<and> fst (require_credits u d) = Inl e
        \<and> kind e \<noteq> ValueError \<longrightarrow>
      fst (POST_analyze_image a req d) = (Json (JObj [(''error'', JStr (str e))]), 500))
   \<and> (passes_validation a req u lang img \<and> fst (require_credits u d) = Inr ()
        \<and> process_image_recognition (client a) lang img = Inl e'
        \<and> kind e' \<noteq> LengthFinishReasonError \<longrightarrow>
      fst (POST_analyze_image a req d) = (Json (JObj [(''error'', JStr (str e'))]), 500))
   \<and> (passes_decorator a req u \<and> get_user_credits u d = Inl e \<longrightarrow>
      fst (GET_credits a req d) =
        (Json (JObj [(''error'', JStr ''Internal server error'')]), 500))
   \<and> (passes_decorator a req u \<and> json req = Inr data \<and> truthy data
        \<and> dict_get data ''lang'' = Inl e \<longrightarrow>
      fst (POST_analyze_image a req d) =
        (Json (JObj [(''error'', JStr ''Internal server error'')]), 500))
   \<and> (passes_decorator a req u \<and> json req = Inl e \<and> http_code (kind e) = Some c \<longrightarrow>
      fst (POST_analyze_image a req d) = (HtmlErrorPage e, c))"
proof -
  have p1: "snd (fst (POST_analyze_image a req d)) \<noteq> 200 \<longrightarrow>
      (\<exists>s. fst (fst (POST_analyze_image a req d)) = Json (JObj [(''error'', JStr s)])
           \<and> (s \<in> set fixed_messages \<or> snd (fst (POST_analyze_image a req d)) = 500))
      \<or> (\<exists>x c. json req = Inl x \<and> http_code (kind x) = Some c
             \<and> fst (POST_analyze_image a req d) = (HtmlErrorPage x, c))"
    using POST_analyze_image_shaped [of a req d] by (simp add: error_shaped_def)
  have p2: "snd (fst (GET_credits a req d)) \<noteq> 200 \<longrightarrow>
      (\<exists>s. fst (fst (GET_credits a req d)) = Json (JObj [(''error'', JStr s)])
           \<and> (s \<in> set fixed_messages \<or> snd (fst (GET_credits a req d)) = 500))"
    using GET_credits_shaped [of a req d] by (simp add: error_shaped_def)
  have p3: "passes_validation a req u lang img \<and> fst (require_credits u d) = Inl e
        \<and> kind e \<noteq> ValueError \<longrightarrow>
      fst (POST_analyze_image a req d) = (Json (JObj [(''error'', JStr (str e))]), 500)"
    using store_fault_message [of a req u lang img d e] by blast
  have p4: "passes_validation a req u lang img \<and> fst (require_credits u d) = Inr ()
        \<and> process_image_recognition (client a) lang img = Inl e'
        \<and> kind e' \<noteq> LengthFinishReasonError \<longrightarrow>
      fst (POST_analyze_image a req d) = (Json (JObj [(''error'', JStr (str e'))]), 500)"
    using collaborator_fault_message [of a req u lang img d e'] by blast
  have p5: "passes_decorator a req u \<and> get_user_credits u d = Inl e \<longrightarrow>
      fst (GET_credits a req d) =
        (Json (JObj [(''error'', JStr ''Internal server error'')]), 500)"
    using balance_query_fault_generic [of a req u d e] by blast
  have p6: "passes_decorator a req u \<and> json req = Inr data \<and> truthy data
        \<and> dict_get data ''lang'' = Inl e \<longrightarrow>
      fst (POST_analyze_image a req d) =
        (Json (JObj [(''error'', JStr ''Internal server error'')]), 500)"
    using not_an_object_generic [of a req u data e d] by blast
  have p7: "passes_decorator a req u \<and> json req = Inl e \<and> http_code (kind e) = Some c \<longrightarrow>
      fst (POST_analyze_image a req d) = (HtmlErrorPage e, c)"
    using request_json_fault_page [of a req u e c d] by blast
  show ?thesis
    by (rule conjI [OF p1 conjI [OF p2 conjI [OF p3 conjI [OF p4 conjI [OF p5
          conjI [OF p6 p7]]]]]])
qed

theorem error_bodies_witness:
  "fst (POST_analyze_image \<lparr>api_key = Some ''k'', client = (\<lambda>l i. Inr [])\<rparr>
     \<lparr>headers = [''X-Api-Key'' \<mapsto> ''k'', ''X-User-Id'' \<mapsto> ''u1''],
       json = Inr (JObj [(''lang'', JStr ''en''), (''image'', JStr ''AAAA'')])\<rparr> None) =
     (Json (JObj [(''error'', JStr ''no such table: user_credits'')]), 500)
   \<and> fst (POST_analyze_image
       \<lparr>api_key = Some ''k'', client = (\<lambda>l i. Inl (Exn OtherError ''Connection error.''))\<rparr>
       \<lparr>headers = [''X-Api-Key'' \<mapsto> ''k'', ''X-User-Id'' \<mapsto> ''u1''],
         json = Inr (JObj [(''lang'', JStr ''en''), (''image'', JStr ''AAAA'')])\<rparr>
       (Some [''u1'' \<mapsto> 5])) =
     (Json (JObj [(''error'', JStr ''Connection error.'')]), 500)
   \<and> (\<exists>s. fst (fst (GET_credits \<lparr>api_key = Some ''k'', client = (\<lambda>l i. Inr [])\<rparr>
               \<lparr>headers = [''X-Api-Key'' \<mapsto> ''k''], json = Inr JNull\<rparr> (Some Map.empty))) =
            Json (JObj [(''error'', JStr s)]) \<and> s \<in> set fixed_messages)
   \<and> (\<exists>s. fst (fst (POST_analyze_image \<lparr>api_key = Some ''k'', client = (\<lambda>l i. Inr [])\<rparr>
               \<lparr>headers = [''X-Api-Key'' \<mapsto> ''k''], json = Inr JNull\<rparr> (Some Map.empty))) =
            Json (JObj [(''error'', JStr s)]) \<and> s \<in> set fixed_messages)
   \<and> fst (GET_credits \<lparr>api_key = Some ''k'', client = (\<lambda>l i. Inr [])\<rparr>
       \<lparr>headers = [''X-Api-Key'' \<mapsto> ''k'', ''X-User-Id'' \<mapsto> ''u1''], json = Inr JNull\<rparr>
       None) = (Json (JObj [(''error'', JStr ''Internal server error'')]), 500)
   \<and> fst (POST_analyze_image \<lparr>api_key = Some ''k'', client = (\<lambda>l i. Inr [])\<rparr>
       \<lparr>headers = [''X-Api-Key'' \<mapsto> ''k'', ''X-User-Id'' \<mapsto> ''u1''],
         json = Inr (JList [JInt 1])\<rparr>
       (Some [''u1'' \<mapsto> 5])) =
       (Json (JObj [(''error'', JStr ''Internal server error'')]), 500)
   \<and> fst (POST_analyze_image \<lparr>api_key = Some ''k'', client = (\<lambda>l i. Inr [])\<rparr>
       \<lparr>headers = [''X-Api-Key'' \<mapsto> ''k'', ''X-User-Id'' \<mapsto> ''u1''],
         json = Inl (Exn BadRequest ''400 Bad Request'')\<rparr>
       (Some [''u1'' \<mapsto> 5])) = (HtmlErrorPage (Exn BadRequest ''400 Bad Request''), 400)"
proof -
  let ?a = "\<lparr>api_key = Some ''k'', client = (\<lambda>l i. Inr [])\<rparr>"
  let ?ac = "\<lparr>api_key = Some ''k'', client = (\<lambda>l i. Inl (Exn OtherError ''Connection error.''))\<rparr>"
  let ?rv = "\<lparr>headers = [''X-Api-Key'' \<mapsto> ''k'', ''X-User-Id'' \<mapsto> ''u1''],
       json = Inr (JObj [(''lang'', JStr ''en''), (''image'', JStr ''AAAA'')])\<rparr>"
  let ?rg = "\<lparr>headers = [''X-Api-Key'' \<mapsto> ''k''], json = Inr JNull\<rparr>"
  let ?rq = "\<lparr>headers = [''X-Api-Key'' \<mapsto> ''k'', ''X-User-Id'' \<mapsto> ''u1''], json = Inr JNull\<rparr>"
  let ?rl = "\<lparr>headers = [''X-Api-Key'' \<mapsto> ''k'', ''X-User-Id'' \<mapsto> ''u1''],
         json = Inr (JList [JInt 1])\<rparr>"
  let ?rx = "\<lparr>headers = [''X-Api-Key'' \<mapsto> ''k'', ''X-User-Id'' \<mapsto> ''u1''],
         json = Inl (Exn BadRequest ''400 Bad Request'')\<rparr>"
  let ?d5 = "Some [''u1'' \<mapsto> (5::int)]"
  let ?nt = "Exn OperationalError ''no such table: user_credits''"
  let ?ce = "Exn OtherError ''Connection error.''"
  let ?ae = "no_attribute ''list'' ''get''"
  let ?be = "Exn BadRequest ''400 Bad Request''"
  have v: "passes_validation ?a ?rv ''u1'' (JStr ''en'') (JStr ''AAAA'')"
    by (simp add: passes_validation_def dict_get_def)
  have vc: "passes_validation ?ac ?rv ''u1'' (JStr ''en'') (JStr ''AAAA'')"
    by (simp add: passes_validation_def dict_get_def)
  have pq: "passes_decorator ?a ?rq ''u1''" and pl: "passes_decorator ?a ?rl ''u1''"
    and px: "passes_decorator ?a ?rx ''u1''"
    by (simp_all add: passes_decorator_def)
  have h3: "passes_validation ?a ?rv ''u1'' (JStr ''en'') (JStr ''AAAA'')
      \<and> fst (require_credits ''u1'' None) = Inl ?nt \<and> kind ?nt \<noteq> ValueError"
    using v by (simp add: require_credits_no_table no_such_table_def)
  have h4: "passes_validation ?ac ?rv ''u1'' (JStr ''en'') (JStr ''AAAA'')
      \<and> fst (require_credits ''u1'' ?d5) = Inr ()
      \<and> process_image_recognition (client ?ac) (JStr ''en'') (JStr ''AAAA'') = Inl ?ce
      \<and> kind ?ce \<noteq> LengthFinishReasonError"
    using vc by (simp add: require_credits_ok process_image_recognition_def)
  have h5: "passes_decorator ?a ?rq ''u1'' \<and> get_user_credits ''u1'' None = Inl ?nt"
    using pq by (simp add: get_user_credits_def no_such_table_def)
  have h6: "passes_decorator ?a ?rl ''u1'' \<and> json ?rl = Inr (JList [JInt 1])
      \<and> truthy (JList [JInt 1]) \<and> dict_get (JList [JInt 1]) ''lang'' = Inl ?ae"
    using pl by (simp add: dict_get_def)
  have h7: "passes_decorator ?a ?rx ''u1'' \<and> json ?rx = Inl ?be
      \<and> http_code (kind ?be) = Some 400"
    using px by simp
  have g: "GET_credits ?a ?rg (Some Map.empty) =
      ((Json (JObj [(''error'', JStr ''Missing required user ID'')]), 422), Some Map.empty)"
    by (simp add: GET_credits_def require_api_key_and_user_id_def full_dispatch_def
        error_body_def jsonify_def)
  have p: "POST_analyze_image ?a ?rg (Some Map.empty) =
      ((Json (JObj [(''error'', JStr ''Missing required user ID'')]), 422), Some Map.empty)"
    by (simp add: POST_analyze_image_def require_api_key_and_user_id_def full_dispatch_def
        error_body_def jsonify_def)
  have h2: "snd (fst (GET_credits ?a ?rg (Some Map.empty))) \<noteq> 200"
    by (simp add: g)
  have h1: "snd (fst (POST_analyze_image ?a ?rg (Some Map.empty))) \<noteq> 200"
    by (simp add: p)
  note c3 = error_bodies [where a = ?a and req = ?rv and d = None and u = "''u1''"
      and lang = "JStr ''en''" and img = "JStr ''AAAA''" and e = ?nt,
      THEN conjunct2, THEN conjunct2, THEN conjunct1, THEN mp, OF h3]
  note c4 = error_bodies [where a = ?ac and req = ?rv and d = ?d5
      and u = "''u1''" and lang = "JStr ''en''" and img = "JStr ''AAAA''" and e' = ?ce,
      THEN conjunct2, THEN conjunct2, THEN conjunct2, THEN conjunct1, THEN mp, OF h4]
  note c2 = error_bodies [where a = ?a and req = ?rg and d = "Some Map.empty",
      THEN conjunct2, THEN conjunct1, THEN mp, OF h2]
  note c1 = error_bodies [where a = ?a and req = ?rg and d = "Some Map.empty",
      THEN conjunct1, THEN mp, OF h1]
  note c5 = error_bodies [where a = ?a and req = ?rq and d = None and u = "''u1''" and e = ?nt,
      THEN conjunct2, THEN conjunct2, THEN conjunct2, THEN conjunct2, THEN conjunct1,
      THEN mp, OF h5]
  note c6 = error_bodies [where a = ?a and req = ?rl and d = ?d5 and u = "''u1''"
      and data = "JList [JInt 1]" and e = ?ae,
      THEN conjunct2, THEN conjunct2, THEN conjunct2, THEN conjunct2, THEN conjunct2,
      THEN conjunct1, THEN mp, OF h6]
  note c7 = error_bodies [where a = ?a and req = ?rx and d = ?d5 and u = "''u1''"
      and e = ?be and c = 400,
      THEN conjunct2, THEN conjunct2, THEN conjunct2, THEN conjunct2, THEN conjunct2,
      THEN conjunct2, THEN mp, OF h7]
  have c2': "\<exists>s. fst (fst (GET_credits ?a ?rg (Some Map.empty))) =
      Json (JObj [(''error'', JStr s)]) \<and> s \<in> set fixed_messages"
    using c2 by (simp add: g)
  have c1': "\<exists>s. fst (fst (POST_analyze_image ?a ?rg (Some Map.empty))) =
      Json (JObj [(''error'', JStr s)]) \<and> s \<in> set fixed_messages"
    using c1 by (simp add: p)
  have c3': "fst (POST_analyze_image ?a ?rv None) =
      (Json (JObj [(''error'', JStr ''no such table: user_credits'')]), 500)"
    using c3 by simp
  have c4': "fst (POST_analyze_image ?ac ?rv ?d5) =
      (Json (JObj [(''error'', JStr ''Connection error.'')]), 500)"
    using c4 by simp
  show ?thesis
    by (rule conjI [OF c3' conjI [OF c4' conjI [OF c2' conjI [OF c1' conjI [OF c5
          conjI [OF c6 c7]]]]]])
qed

end
